theory Spec2Isabelle
  imports Complex_Main "HOL-Library.Multiset"
begin

section \<open>Pairwise election distances: dispatcher, parser and schedulers\<close>

text \<open>
  A shallow embedding of \<^verbatim>\<open>mapel/elections/distances_.py\<close>.

  \<^item> Python objects that the code may share or mutate (the elections) live in an
    explicit heap: a reference is a \<open>nat\<close>, \<open>copy.deepcopy\<close> allocates a fresh
    reference holding the same value.
  \<^item> Exceptions are values: every function that can raise returns \<open>py_error + _\<close>,
    with \<open>Inl\<close> the exception. A raise ends the run; the state reached so far is
    not returned.
  \<^item> The module's globals that change (the logging output, the clock read by
    \<^verbatim>\<open>time()\<close>) are fields of a \<open>world\<close> record that is passed through.
  \<^item> The metric functions, the element-level lookup \<^verbatim>\<open>map_str_to_func\<close> and the
    contents of the two registries are not part of this module; they are the
    fields of an environment record and stay arbitrary in every theorem.
\<close>

subsection \<open>Exceptions and Python values\<close>

datatype py_error = TypeError | ValueError | KeyError | IndexError | OtherError string

text \<open>
  A class object. \<open>OtherClass name bases\<close> is any class other than the two election
  classes, with its direct base classes.
\<close>

datatype py_class = ApprovalElection | OrdinalElection | OtherClass string "py_class list"

fun issubclass :: "py_class \<Rightarrow> py_class \<Rightarrow> bool" where
  "issubclass (OtherClass n bases) d =
     (OtherClass n bases = d \<or> (\<exists>b \<in> set bases. issubclass b d))"
| "issubclass c d = (c = d)"

definition strict_subclass :: "py_class \<Rightarrow> py_class \<Rightarrow> bool" where
  "strict_subclass c d = (issubclass c d \<and> c \<noteq> d)"

text \<open>An election object: its runtime class (\<^verbatim>\<open>type(e)\<close>) and its data, left opaque.\<close>

record 'e election =
  cls :: py_class
  content :: 'e

record 'e heap =
  objs :: "nat \<Rightarrow> 'e election"
  next_ref :: nat

text \<open>\<^verbatim>\<open>copy.deepcopy(obj)\<close>: a new object with the same value, at a fresh reference.\<close>

definition deepcopy :: "nat \<Rightarrow> 'e heap \<Rightarrow> nat \<times> 'e heap" where
  "deepcopy r h =
     (next_ref h, h\<lparr>objs := (objs h)(next_ref h := objs h r), next_ref := Suc (next_ref h)\<rparr>)"

text \<open>
  A Python float, as far as the code can tell floats apart: a finite value, an
  infinity or NaN. The code never computes with a distance; it stores it and a reader
  of the matrices compares it. The finite values are modelled as reals.
\<close>

datatype py_float = Finite real | PosInf | NegInf | NaN

text \<open>
  What a metric returns: \<^verbatim>\<open>None\<close>, a bare scalar, a pair \<^verbatim>\<open>(scalar, alignment)\<close>,
  or a tuple whose length is not two.
\<close>

datatype metric_result = RNone | RScalar py_float | RTuple py_float "int list" | RBadTuple

text \<open>The third argument of a metric: an inner distance, or the keyword arguments.\<close>

datatype 'a metric_arg = Inner 'a | Kwargs "(string \<times> 'a) list"

type_synonym ('e, 'a) metric =
  "'e heap \<Rightarrow> nat \<Rightarrow> nat \<Rightarrow> 'a metric_arg \<Rightarrow> py_error + (metric_result \<times> 'e heap)"

record ('e, 'a) env =
  registered_approval_distances :: "string \<rightharpoonup> ('e, 'a) metric"
  registered_ordinal_distances :: "string \<rightharpoonup> ('e, 'a) metric"
  map_str_to_func :: "string \<Rightarrow> py_error + 'a option"

definition add_approval_distance ::
  "string \<Rightarrow> ('e, 'a) metric \<Rightarrow> ('e, 'a) env \<Rightarrow> ('e, 'a) env" where
  "add_approval_distance name function g =
     g\<lparr>registered_approval_distances := (registered_approval_distances g)(name \<mapsto> function)\<rparr>"

definition add_ordinal_distance ::
  "string \<Rightarrow> ('e, 'a) metric \<Rightarrow> ('e, 'a) env \<Rightarrow> ('e, 'a) env" where
  "add_ordinal_distance name function g =
     g\<lparr>registered_ordinal_distances := (registered_ordinal_distances g)(name \<mapsto> function)\<rparr>"

subsection \<open>The identifier parser\<close>

text \<open>\<^verbatim>\<open>s.split(sep)\<close> for a one-character separator: \<open>n\<close> separators give \<open>n + 1\<close> parts.\<close>

fun split_str :: "char \<Rightarrow> string \<Rightarrow> string list" where
  "split_str c [] = [[]]"
| "split_str c (x # xs) =
     (if x = c then [] # split_str c xs
      else (case split_str c xs of
              [] \<Rightarrow> [[x]]
            | p # ps \<Rightarrow> (x # p) # ps))"

text \<open>
  \<^verbatim>\<open>_extract_distance_id\<close>. The argument is \<open>None\<close> when the caller passed Python's
  \<^verbatim>\<open>None\<close>, on which the membership test raises \<^verbatim>\<open>TypeError\<close>. Unpacking the split
  into two names raises \<^verbatim>\<open>ValueError\<close> unless there are exactly two parts.
\<close>

definition extract_distance_id ::
  "(string \<Rightarrow> py_error + 'a option) \<Rightarrow> string option \<Rightarrow> py_error + ('a option \<times> string)" where
  "extract_distance_id lookup distance_id =
     (case distance_id of
        None \<Rightarrow> Inl TypeError
      | Some s \<Rightarrow>
          if CHR ''-'' \<in> set s then
            (case split_str (CHR ''-'') s of
               [inner_distance, main_distance] \<Rightarrow>
                 (case lookup inner_distance of
                    Inl e \<Rightarrow> Inl e
                  | Inr f \<Rightarrow> Inr (f, main_distance))
             | _ \<Rightarrow> Inl ValueError)
          else Inr (None, s))"

subsection \<open>The world and the dispatcher\<close>

text \<open>
  The mutable surroundings of the module: the heap of election objects, the warnings
  written through \<^verbatim>\<open>logging.warning\<close>, the clock (\<open>clock n\<close> is what the \<open>n\<close>-th call of
  \<^verbatim>\<open>time()\<close> returns, a finite float, modelled as a real; an elapsed time is the
  difference of two readings) and the partitions handed to the export collaborator.
  \<open>calls\<close> is a ghost trace: every invocation of a registered metric appends the
  registry key and the two argument references.
\<close>

record 'e world =
  heap :: "'e heap"
  warnings :: "string list"
  calls :: "(string \<times> nat \<times> nat) list"
  clock :: "nat \<Rightarrow> real"
  ticks :: nat
  exported :: "nat list"

definition logging_warning :: "string \<Rightarrow> 'e world \<Rightarrow> 'e world" where
  "logging_warning msg w = w\<lparr>warnings := warnings w @ [msg]\<rparr>"

definition time_now :: "'e world \<Rightarrow> real \<times> 'e world" where
  "time_now w = (clock w (ticks w), w\<lparr>ticks := Suc (ticks w)\<rparr>)"

text \<open>
  Calling a registered metric: it runs on the heap, may change it (a metric may mutate
  its arguments) and may raise.
\<close>

definition call_metric ::
  "('e, 'a) metric \<Rightarrow> string \<Rightarrow> nat \<Rightarrow> nat \<Rightarrow> 'a metric_arg \<Rightarrow> 'e world
     \<Rightarrow> py_error + (metric_result \<times> 'e world)" where
  "call_metric f name election_1 election_2 a w =
     (case f (heap w) election_1 election_2 a of
        Inl e \<Rightarrow> Inl e
      | Inr (r, h') \<Rightarrow>
          Inr (r, w\<lparr>heap := h', calls := calls w @ [(name, election_1, election_2)]\<rparr>))"

definition get_approval_distance ::
  "('e, 'a) env \<Rightarrow> nat \<Rightarrow> nat \<Rightarrow> string option \<Rightarrow> (string \<times> 'a) list \<Rightarrow> 'e world
     \<Rightarrow> py_error + (metric_result \<times> 'e world)" where
  "get_approval_distance g election_1 election_2 distance_id kwargs w =
     (case extract_distance_id (map_str_to_func g) distance_id of
        Inl e \<Rightarrow> Inl e
      | Inr (inner_distance, main_distance) \<Rightarrow>
          (case registered_approval_distances g main_distance of
             Some f \<Rightarrow>
               (case inner_distance of
                  Some inner \<Rightarrow> call_metric f main_distance election_1 election_2 (Inner inner) w
                | None \<Rightarrow> call_metric f main_distance election_1 election_2 (Kwargs kwargs) w)
           | None \<Rightarrow>
               Inr (RNone, logging_warning (''No such distance as: '' @ main_distance @ ''!'') w)))"

definition get_ordinal_distance ::
  "('e, 'a) env \<Rightarrow> nat \<Rightarrow> nat \<Rightarrow> string option \<Rightarrow> (string \<times> 'a) list \<Rightarrow> 'e world
     \<Rightarrow> py_error + (metric_result \<times> 'e world)" where
  "get_ordinal_distance g election_1 election_2 distance_id kwargs w =
     (case extract_distance_id (map_str_to_func g) distance_id of
        Inl e \<Rightarrow> Inl e
      | Inr (inner_distance, main_distance) \<Rightarrow>
          (case registered_ordinal_distances g main_distance of
             Some f \<Rightarrow>
               (case inner_distance of
                  Some inner \<Rightarrow> call_metric f main_distance election_1 election_2 (Inner inner) w
                | None \<Rightarrow> call_metric f main_distance election_1 election_2 (Kwargs kwargs) w)
           | None \<Rightarrow>
               Inr (RNone, logging_warning (''No such distance as: '' @ main_distance @ ''!'') w)))"

text \<open>\<^verbatim>\<open>type(e)\<close> of the object behind a reference.\<close>

definition type_of :: "'e world \<Rightarrow> nat \<Rightarrow> py_class" where
  "type_of w r = cls (objs (heap w) r)"

text \<open>
  \<^verbatim>\<open>get_distance\<close>: the two tests are \<^verbatim>\<open>type(e) is C\<close>, identity of class objects. The
  last branch logs and falls off the end of the function, which returns \<^verbatim>\<open>None\<close>.
\<close>

definition get_distance ::
  "('e, 'a) env \<Rightarrow> nat \<Rightarrow> nat \<Rightarrow> string option \<Rightarrow> 'e world
     \<Rightarrow> py_error + (metric_result \<times> 'e world)" where
  "get_distance g election_1 election_2 distance_id w =
     (if type_of w election_1 = ApprovalElection \<and> type_of w election_2 = ApprovalElection then
        get_approval_distance g election_1 election_2 distance_id [] w
      else if type_of w election_1 = OrdinalElection \<and> type_of w election_2 = OrdinalElection then
        get_ordinal_distance g election_1 election_2 distance_id [] w
      else Inr (RNone, logging_warning ''No such instance!'' w))"

subsection \<open>The result matrices\<close>

text \<open>
  A matrix is a dict of dicts. Its rows are distinct dict objects and the three
  matrices are distinct (the caller builds them as \<^verbatim>\<open>{id: {} for id in ...}\<close>), so a
  nested map, updated by value, models them. \<^verbatim>\<open>m[i][j] = v\<close> looks the row \<open>i\<close> up first
  and raises \<^verbatim>\<open>KeyError\<close> when it is missing.
\<close>

type_synonym ('k, 'v) matrix = "'k \<rightharpoonup> ('k \<rightharpoonup> 'v)"

definition set_cell :: "('k, 'v) matrix \<Rightarrow> 'k \<Rightarrow> 'k \<Rightarrow> 'v \<Rightarrow> py_error + ('k, 'v) matrix" where
  "set_cell m i j v =
     (case m i of
        None \<Rightarrow> Inl KeyError
      | Some row \<Rightarrow> Inr (m(i \<mapsto> row(j \<mapsto> v))))"

definition get_cell :: "('k, 'v) matrix \<Rightarrow> 'k \<Rightarrow> 'k \<Rightarrow> py_error + 'v" where
  "get_cell m i j =
     (case m i of
        None \<Rightarrow> Inl KeyError
      | Some row \<Rightarrow> (case row j of None \<Rightarrow> Inl KeyError | Some v \<Rightarrow> Inr v))"

text \<open>The content of a cell, \<open>None\<close> when the row or the entry is absent.\<close>

definition cell :: "('k, 'v) matrix \<Rightarrow> 'k \<Rightarrow> 'k \<Rightarrow> 'v option" where
  "cell m i j = (case m i of None \<Rightarrow> None | Some row \<Rightarrow> row j)"

text \<open>The cells \<open>(i, j)\<close> and \<open>(j, i)\<close> are both present and hold the same value.\<close>

definition mirrored :: "('k, 'v) matrix \<Rightarrow> 'k \<Rightarrow> 'k \<Rightarrow> bool" where
  "mirrored m i j = (cell m i j \<noteq> None \<and> cell m i j = cell m j i)"

text \<open>What a cell of the distance matrix holds: the metric's scalar, or \<^verbatim>\<open>None\<close>.\<close>

datatype dist_value = PyNone | PyFloat py_float

text \<open>
  \<^verbatim>\<open>a == b\<close> on two values read from the distance matrix: \<^verbatim>\<open>None == None\<close> is true,
  two floats are equal when they are the same value and not NaN (NaN is not equal to
  itself), and \<^verbatim>\<open>None\<close> is not equal to a float.
\<close>

fun py_eq :: "dist_value \<Rightarrow> dist_value \<Rightarrow> bool" where
  "py_eq PyNone PyNone = True"
| "py_eq (PyFloat a) (PyFloat b) = (a \<noteq> NaN \<and> b \<noteq> NaN \<and> a = b)"
| "py_eq _ _ = False"

record 'k matrices =
  distances :: "('k, dist_value) matrix"
  times_m :: "('k, real) matrix"
  matchings :: "('k, int list) matrix"

text \<open>
  \<^verbatim>\<open>np.argsort(a)\<close> of a one-dimensional array: the indices that sort it. Where \<open>a\<close>
  has equal entries numpy's default sort does not fix their order; the model takes
  the stable one. \<^verbatim>\<open>np.array(matching)\<close> of a list of integers is that list.
\<close>

definition argsort :: "int list \<Rightarrow> int list" where
  "argsort a = map int (sort_key (\<lambda>i. a ! i) [0..<length a])"

text \<open>\<^verbatim>\<open>a[i]\<close> on an array: a negative index counts from the end.\<close>

definition np_getitem :: "int list \<Rightarrow> int \<Rightarrow> py_error + int" where
  "np_getitem a i =
     (if 0 \<le> i \<and> i < int (length a) then Inr (a ! nat i)
      else if i < 0 \<and> 0 \<le> int (length a) + i then Inr (a ! nat (int (length a) + i))
      else Inl IndexError)"

definition is_permutation :: "int list \<Rightarrow> bool" where
  "is_permutation p = (sort p = map int [0..<length p])"

subsection \<open>The schedulers\<close>

record 'k Experiment =
  instances :: "'k \<rightharpoonup> nat"
  distance_id :: "string option"
  is_exported :: bool

text \<open>\<^verbatim>\<open>exp.instances[instance_id]\<close>.\<close>

definition get_instance :: "'k Experiment \<Rightarrow> 'k \<Rightarrow> py_error + nat" where
  "get_instance experiment i = (case instances experiment i of None \<Rightarrow> Inl KeyError | Some r \<Rightarrow> Inr r)"

text \<open>
  The call of \<^verbatim>\<open>get_distance\<close> on deep copies (lines 166--168 and 195--197). Python
  evaluates the arguments from left to right. The identifier is a string or
  \<^verbatim>\<open>None\<close>, both immutable: its deep copy is the same value.
\<close>

definition get_distance_copied ::
  "('e, 'a) env \<Rightarrow> 'k Experiment \<Rightarrow> 'k \<Rightarrow> 'k \<Rightarrow> 'e world
     \<Rightarrow> py_error + (metric_result \<times> 'e world)" where
  "get_distance_copied g experiment instance_id_1 instance_id_2 w =
     (case get_instance experiment instance_id_1 of
        Inl e \<Rightarrow> Inl e
      | Inr r1 \<Rightarrow>
          (case deepcopy r1 (heap w) of (c1, h1) \<Rightarrow>
             (case get_instance experiment instance_id_2 of
                Inl e \<Rightarrow> Inl e
              | Inr r2 \<Rightarrow>
                  (case deepcopy r2 h1 of (c2, h2) \<Rightarrow>
                     get_distance g c1 c2 (distance_id experiment) (w\<lparr>heap := h2\<rparr>)))))"

text \<open>The call of \<^verbatim>\<open>get_distance\<close> on the stored instances themselves (lines 170--172).\<close>

definition get_distance_direct ::
  "('e, 'a) env \<Rightarrow> 'k Experiment \<Rightarrow> 'k \<Rightarrow> 'k \<Rightarrow> 'e world
     \<Rightarrow> py_error + (metric_result \<times> 'e world)" where
  "get_distance_direct g experiment instance_id_1 instance_id_2 w =
     (case get_instance experiment instance_id_1 of
        Inl e \<Rightarrow> Inl e
      | Inr r1 \<Rightarrow>
          (case get_instance experiment instance_id_2 of
             Inl e \<Rightarrow> Inl e
           | Inr r2 \<Rightarrow> get_distance g r1 r2 (distance_id experiment) w))"

text \<open>
  Lines 173--177 and 198--202: a tuple is unpacked into distance and matching, the
  matching is stored and its \<^verbatim>\<open>argsort\<close> is stored in the mirrored cell. Anything that
  is not a tuple is the distance itself.
\<close>

definition store_matching ::
  "'k \<Rightarrow> 'k \<Rightarrow> metric_result \<Rightarrow> ('k, int list) matrix
     \<Rightarrow> py_error + (dist_value \<times> ('k, int list) matrix)" where
  "store_matching instance_id_1 instance_id_2 distance m =
     (case distance of
        RTuple d matching \<Rightarrow>
          (case set_cell m instance_id_1 instance_id_2 matching of
             Inl e \<Rightarrow> Inl e
           | Inr m1 \<Rightarrow>
               (case set_cell m1 instance_id_2 instance_id_1 (argsort matching) of
                  Inl e \<Rightarrow> Inl e
                | Inr m2 \<Rightarrow> Inr (PyFloat d, m2)))
      | RBadTuple \<Rightarrow> Inl ValueError
      | RScalar d \<Rightarrow> Inr (PyFloat d, m)
      | RNone \<Rightarrow> Inr (PyNone, m))"

text \<open>
  \<^verbatim>\<open>m[i][j] = v; m[j][i] = m[i][j]\<close> (lines 178--179, 180--181 and their copies
  203--206): the second assignment reads the cell just written.
\<close>

definition store_mirrored ::
  "('k, 'v) matrix \<Rightarrow> 'k \<Rightarrow> 'k \<Rightarrow> 'v \<Rightarrow> py_error + ('k, 'v) matrix" where
  "store_mirrored m instance_id_1 instance_id_2 v =
     (case set_cell m instance_id_1 instance_id_2 v of
        Inl e \<Rightarrow> Inl e
      | Inr m1 \<Rightarrow>
          (case get_cell m1 instance_id_1 instance_id_2 of
             Inl e \<Rightarrow> Inl e
           | Inr v' \<Rightarrow> set_cell m1 instance_id_2 instance_id_1 v'))"

text \<open>Lines 173--181 (and 198--206), after the dispatch returned \<open>distance\<close>.\<close>

definition store_result ::
  "'k \<Rightarrow> 'k \<Rightarrow> real \<Rightarrow> metric_result \<Rightarrow> 'k matrices \<Rightarrow> 'e world
     \<Rightarrow> py_error + ('k matrices \<times> 'e world)" where
  "store_result instance_id_1 instance_id_2 start_time distance ms w =
     (case store_matching instance_id_1 instance_id_2 distance (matchings ms) of
        Inl e \<Rightarrow> Inl e
      | Inr (d, m') \<Rightarrow>
          (case store_mirrored (distances ms) instance_id_1 instance_id_2 d of
             Inl e \<Rightarrow> Inl e
           | Inr d' \<Rightarrow>
               (case time_now w of (end_time, w') \<Rightarrow>
                  (case store_mirrored (times_m ms) instance_id_1 instance_id_2
                          (end_time - start_time) of
                     Inl e \<Rightarrow> Inl e
                   | Inr t' \<Rightarrow>
                       Inr (ms\<lparr>distances := d', times_m := t', matchings := m'\<rparr>, w')))))"

text \<open>One iteration of the loop of \<^verbatim>\<open>run_single_process\<close> (lines 164--181).\<close>

definition single_iteration ::
  "('e, 'a) env \<Rightarrow> 'k Experiment \<Rightarrow> bool \<Rightarrow> 'k \<Rightarrow> 'k \<Rightarrow> 'k matrices \<Rightarrow> 'e world
     \<Rightarrow> py_error + ('k matrices \<times> 'e world)" where
  "single_iteration g experiment safe_mode instance_id_1 instance_id_2 ms w =
     (case time_now w of (start_time, w1) \<Rightarrow>
        (case (if safe_mode then get_distance_copied g experiment instance_id_1 instance_id_2 w1
               else get_distance_direct g experiment instance_id_1 instance_id_2 w1) of
           Inl e \<Rightarrow> Inl e
         | Inr (distance, w2) \<Rightarrow>
             store_result instance_id_1 instance_id_2 start_time distance ms w2))"

fun run_single_process ::
  "('e, 'a) env \<Rightarrow> 'k Experiment \<Rightarrow> ('k \<times> 'k) list \<Rightarrow> 'k matrices \<Rightarrow> bool \<Rightarrow> 'e world
     \<Rightarrow> py_error + ('k matrices \<times> 'e world)" where
  "run_single_process g experiment [] ms safe_mode w = Inr (ms, w)"
| "run_single_process g experiment ((instance_id_1, instance_id_2) # rest) ms safe_mode w =
     (case single_iteration g experiment safe_mode instance_id_1 instance_id_2 ms w of
        Inl e \<Rightarrow> Inl e
      | Inr (ms', w') \<Rightarrow> run_single_process g experiment rest ms' safe_mode w')"

text \<open>One iteration of the loop of \<^verbatim>\<open>run_multiple_processes\<close> (lines 194--206).\<close>

definition multiple_iteration ::
  "('e, 'a) env \<Rightarrow> 'k Experiment \<Rightarrow> 'k \<Rightarrow> 'k \<Rightarrow> 'k matrices \<Rightarrow> 'e world
     \<Rightarrow> py_error + ('k matrices \<times> 'e world)" where
  "multiple_iteration g experiment instance_id_1 instance_id_2 ms w =
     (case time_now w of (start_time, w1) \<Rightarrow>
        (case get_distance_copied g experiment instance_id_1 instance_id_2 w1 of
           Inl e \<Rightarrow> Inl e
         | Inr (distance, w2) \<Rightarrow>
             store_result instance_id_1 instance_id_2 start_time distance ms w2))"

fun multiple_loop ::
  "('e, 'a) env \<Rightarrow> 'k Experiment \<Rightarrow> ('k \<times> 'k) list \<Rightarrow> 'k matrices \<Rightarrow> 'e world
     \<Rightarrow> py_error + ('k matrices \<times> 'e world)" where
  "multiple_loop g experiment [] ms w = Inr (ms, w)"
| "multiple_loop g experiment ((instance_id_1, instance_id_2) # rest) ms w =
     (case multiple_iteration g experiment instance_id_1 instance_id_2 ms w of
        Inl e \<Rightarrow> Inl e
      | Inr (ms', w') \<Rightarrow> multiple_loop g experiment rest ms' w')"

text \<open>
  Modelled from the spec: \<^verbatim>\<open>exports.export_distances_multiple_processes\<close> is not in
  the source under study. The spec gives it as
  \<^verbatim>\<open>export_partition(batch_context, pair_subset, distances, times, worker_id) -> void\<close>,
  a collaborator that persists one partition's results; it is modelled as recording
  the worker's id and leaving the matrices as they are.
\<close>

definition export_distances_multiple_processes :: "nat \<Rightarrow> 'e world \<Rightarrow> 'e world" where
  "export_distances_multiple_processes process_id w = w\<lparr>exported := exported w @ [process_id]\<rparr>"

definition run_multiple_processes ::
  "('e, 'a) env \<Rightarrow> 'k Experiment \<Rightarrow> ('k \<times> 'k) list \<Rightarrow> 'k matrices \<Rightarrow> nat \<Rightarrow> 'e world
     \<Rightarrow> py_error + ('k matrices \<times> 'e world)" where
  "run_multiple_processes g experiment instances_ids ms process_id w =
     (case multiple_loop g experiment instances_ids ms w of
        Inl e \<Rightarrow> Inl e
      | Inr (ms', w') \<Rightarrow>
          Inr (ms', if is_exported experiment then export_distances_multiple_processes process_id w'
                    else w'))"

subsection \<open>The workers, and the predicates of the statements\<close>

text \<open>
  The dispatcher reports \<open>msg\<close> for elections of classes \<open>c1\<close> and \<open>c2\<close>: a family
  mismatch, or a main distance that the registry of their family does not have.
\<close>

definition reports :: "('e, 'a) env \<Rightarrow> string option \<Rightarrow> py_class \<Rightarrow> py_class \<Rightarrow> string \<Rightarrow> bool" where
  "reports g did c1 c2 msg =
     ((\<not> (c1 = ApprovalElection \<and> c2 = ApprovalElection)
        \<and> \<not> (c1 = OrdinalElection \<and> c2 = OrdinalElection)
        \<and> msg = ''No such instance!'')
      \<or> (\<exists>inner_distance main_distance.
            extract_distance_id (map_str_to_func g) did = Inr (inner_distance, main_distance)
            \<and> msg = ''No such distance as: '' @ main_distance @ ''!''
            \<and> ((c1 = ApprovalElection \<and> c2 = ApprovalElection
                  \<and> main_distance \<notin> dom (registered_approval_distances g))
               \<or> (c1 = OrdinalElection \<and> c2 = OrdinalElection
                  \<and> main_distance \<notin> dom (registered_ordinal_distances g)))))"

text \<open>
  A metric that mutates nothing but its two arguments: of the objects that exist when
  it is called, all others are unchanged when it returns. It may create new objects.
\<close>

definition mutates_only_arguments :: "('e, 'a) metric \<Rightarrow> bool" where
  "mutates_only_arguments f =
     (\<forall>h election_1 election_2 a r h'.
        f h election_1 election_2 a = Inr (r, h') \<longrightarrow>
          next_ref h \<le> next_ref h'
          \<and> (\<forall>x < next_ref h. x \<noteq> election_1 \<and> x \<noteq> election_2 \<longrightarrow> objs h' x = objs h x))"

definition registered_metrics :: "('e, 'a) env \<Rightarrow> ('e, 'a) metric set" where
  "registered_metrics g =
     ran (registered_approval_distances g) \<union> ran (registered_ordinal_distances g)"

text \<open>Every registered metric mutates nothing but its arguments.\<close>

definition metrics_mutate_only_arguments :: "('e, 'a) env \<Rightarrow> bool" where
  "metrics_mutate_only_arguments g = (\<forall>f \<in> registered_metrics g. mutates_only_arguments f)"

text \<open>The stored instances are objects that exist in the heap.\<close>

definition instances_allocated :: "'k Experiment \<Rightarrow> 'e world \<Rightarrow> bool" where
  "instances_allocated experiment w =
     (\<forall>k r. instances experiment k = Some r \<longrightarrow> r < next_ref (heap w))"









subsection \<open>A small concrete instance\<close>

text \<open>
  Five stored elections, whose data is a number: three ordinal ones (0, 1 and 4), an
  approval one (2) and one of a class derived from \<^verbatim>\<open>ApprovalElection\<close> (3). The
  instance id \<open>i\<close> refers to the object at reference \<open>i\<close>.
\<close>

definition ex_objs :: "nat \<Rightarrow> nat election" where
  "ex_objs r =
     (if r = 0 then \<lparr>cls = OrdinalElection, content = 5\<rparr>
      else if r = 1 then \<lparr>cls = OrdinalElection, content = 7\<rparr>
      else if r = 2 then \<lparr>cls = ApprovalElection, content = 1\<rparr>
      else if r = 3 then
        \<lparr>cls = OtherClass ''MyApprovalElection'' [ApprovalElection], content = 0\<rparr>
      else \<lparr>cls = OrdinalElection, content = 9\<rparr>)"

definition ex_world :: "nat world" where
  "ex_world =
     \<lparr>heap = \<lparr>objs = ex_objs, next_ref = 5\<rparr>, warnings = [], calls = [],
      clock = (\<lambda>n. 3 * real n + 10), ticks = 0, exported = []\<rparr>"

text \<open>
  Four metrics: one returns a scalar and an alignment, one returns a bare scalar, one
  returns the first election's number and increments it in place, and one returns NaN.
\<close>

definition ex_swap :: "(nat, nat) metric" where
  "ex_swap h election_1 election_2 a =
     Inr (RTuple (Finite (real (content (objs h election_1) + content (objs h election_2))))
            [1, 2, 0], h)"

definition ex_approvalwise :: "(nat, nat) metric" where
  "ex_approvalwise h election_1 election_2 a = Inr (RScalar (Finite 3), h)"

definition ex_counting :: "(nat, nat) metric" where
  "ex_counting h election_1 election_2 a =
     Inr (RScalar (Finite (real (content (objs h election_1)))),
          h\<lparr>objs := (objs h)(election_1 :=
                (objs h election_1)\<lparr>content := Suc (content (objs h election_1))\<rparr>)\<rparr>)"

definition ex_blank :: "(nat, nat) metric" where
  "ex_blank h election_1 election_2 a = Inr (RScalar NaN, h)"

definition ex_lookup :: "string \<Rightarrow> py_error + nat option" where
  "ex_lookup name = (if name = ''l1'' then Inr (Some 1) else Inr None)"

definition ex_env :: "(nat, nat) env" where
  "ex_env =
     add_ordinal_distance ''blank'' ex_blank
       (add_ordinal_distance ''counting'' ex_counting
          (add_ordinal_distance ''swap'' ex_swap
             (add_approval_distance ''approvalwise'' ex_approvalwise
                \<lparr>registered_approval_distances = Map.empty,
                 registered_ordinal_distances = Map.empty,
                 map_str_to_func = ex_lookup\<rparr>)))"

definition ex_experiment :: "string \<Rightarrow> nat Experiment" where
  "ex_experiment name =
     \<lparr>instances = (\<lambda>i. if i < 5 then Some i else None), distance_id = Some name,
      is_exported = False\<rparr>"

definition ex_rows :: "(nat, 'v) matrix" where
  "ex_rows = (\<lambda>i. if i < 5 then Some Map.empty else None)"

definition ex_matrices :: "nat matrices" where
  "ex_matrices = \<lparr>distances = ex_rows, times_m = ex_rows, matchings = ex_rows\<rparr>"

text \<open>Runs of the two schedulers on the concrete instance.\<close>

definition ex_single_run :: "py_error + (nat matrices \<times> nat world)" where
  "ex_single_run =
     run_single_process ex_env (ex_experiment ''swap'') [(0, 1), (4, 1)] ex_matrices False ex_world"

definition ex_multiple_run :: "py_error + (nat matrices \<times> nat world)" where
  "ex_multiple_run =
     run_multiple_processes ex_env (ex_experiment ''swap'') [(0, 1), (4, 1)] ex_matrices 0 ex_world"

text \<open>Runs with the metric that returns NaN.\<close>

definition ex_nan_run :: "py_error + (nat matrices \<times> nat world)" where
  "ex_nan_run =
     run_single_process ex_env (ex_experiment ''blank'') [(0, 1)] ex_matrices False ex_world"

definition ex_nan_workers_run :: "py_error + (nat matrices \<times> nat world)" where
  "ex_nan_workers_run =
     run_multiple_processes ex_env (ex_experiment ''blank'') [(0, 1)] ex_matrices 0 ex_world"

definition ex_prefix_single :: "py_error + (nat matrices \<times> nat world)" where
  "ex_prefix_single =
     run_single_process ex_env (ex_experiment ''swap'') [(4, 1)] ex_matrices False ex_world"

definition ex_whole_single :: "py_error + (nat matrices \<times> nat world)" where
  "ex_whole_single =
     run_single_process ex_env (ex_experiment ''swap'') ([(4, 1)] @ (0, 1) # [(4, 0)])
       ex_matrices False ex_world"

definition ex_prefix_multiple :: "py_error + (nat matrices \<times> nat world)" where
  "ex_prefix_multiple = multiple_loop ex_env (ex_experiment ''swap'') [(4, 1)] ex_matrices ex_world"

definition ex_whole_multiple :: "py_error + (nat matrices \<times> nat world)" where
  "ex_whole_multiple =
     run_multiple_processes ex_env (ex_experiment ''swap'') ([(4, 1)] @ (0, 1) # [(4, 0)])
       ex_matrices 0 ex_world"

text \<open>Runs whose only pair makes the dispatcher report a failure.\<close>

definition ex_unknown_run :: "py_error + (nat matrices \<times> nat world)" where
  "ex_unknown_run =
     run_single_process ex_env (ex_experiment ''nonexistent'') [(0, 1)] ex_matrices False ex_world"

definition ex_mismatch_run :: "py_error + (nat matrices \<times> nat world)" where
  "ex_mismatch_run =
     run_single_process ex_env (ex_experiment ''swap'') [(0, 2)] ex_matrices False ex_world"

text \<open>Safe runs with the metric that increments its first argument.\<close>

definition ex_safe_run :: "py_error + (nat matrices \<times> nat world)" where
  "ex_safe_run =
     run_single_process ex_env (ex_experiment ''counting'') [(0, 1), (0, 4)] ex_matrices True
       ex_world"

definition ex_workers_run :: "py_error + (nat matrices \<times> nat world)" where
  "ex_workers_run =
     run_multiple_processes ex_env (ex_experiment ''counting'') [(0, 1), (0, 4)] ex_matrices 0
       ex_world"








section \<open>Properties\<close>

lemma split_str_nonempty: "split_str c s \<noteq> []"
  by (induction s) (auto split: list.splits)

lemma length_split_str: "length (split_str c s) = Suc (count_list s c)"
  by (induction s) (auto split: list.splits simp: split_str_nonempty)

lemma split_str_no_sep: "c \<notin> set s \<Longrightarrow> split_str c s = [s]"
  by (induction s) auto

lemma split_str_one_sep:
  "c \<notin> set a \<Longrightarrow> split_str c (a @ c # b) = a # split_str c b"
  by (induction a) (auto split: list.splits)

lemma strict_subclass_not_base:
  "strict_subclass c ApprovalElection \<or> strict_subclass c OrdinalElection
     \<Longrightarrow> c \<noteq> ApprovalElection \<and> c \<noteq> OrdinalElection"
  by (cases c) (auto simp: strict_subclass_def)

subsection \<open>The identifier parser (C7)\<close>

lemma extract_no_sep:
  "CHR ''-'' \<notin> set s \<Longrightarrow> extract_distance_id lookup (Some s) = Inr (None, s)"
  by (simp add: extract_distance_id_def)

lemma extract_one_sep:
  assumes "CHR ''-'' \<notin> set a" and "CHR ''-'' \<notin> set b"
  shows "extract_distance_id lookup (Some (a @ CHR ''-'' # b)) =
           (case lookup a of Inl e \<Rightarrow> Inl e | Inr f \<Rightarrow> Inr (f, b))"
  using assms by (simp add: extract_distance_id_def split_str_one_sep split_str_no_sep)

lemma extract_many_sep:
  assumes "2 \<le> count_list s (CHR ''-'')"
  shows "extract_distance_id lookup (Some s) = Inl ValueError"
proof -
  have len: "3 \<le> length (split_str (CHR ''-'') s)"
    using assms by (simp add: length_split_str)
  have mem: "CHR ''-'' \<in> set s"
    using assms by (metis count_list_0_iff not_numeral_le_zero)
  obtain x y z zs where "split_str (CHR ''-'') s = x # y # z # zs"
    using len by (auto simp: numeral_3_eq_3 Suc_le_length_iff)
  then show ?thesis using mem by (simp add: extract_distance_id_def)
qed

text \<open>
  Claim C7. \<^verbatim>\<open>_extract_distance_id\<close> maps a string without separator to no inner
  distance and the string itself as main distance; a string with one separator,
  \<open>a-b\<close>, to the main distance \<open>b\<close> and the inner distance that the element-level
  lookup returns for \<open>a\<close> (raising what the lookup raises); and raises \<^verbatim>\<open>ValueError\<close>
  on every string with two or more separators.
\<close>

theorem extract_distance_id_parses:
  "(CHR ''-'' \<notin> set s \<longrightarrow> extract_distance_id lookup (Some s) = Inr (None, s))
   \<and> (CHR ''-'' \<notin> set a \<and> CHR ''-'' \<notin> set b \<longrightarrow>
        extract_distance_id lookup (Some (a @ CHR ''-'' # b)) =
          (case lookup a of Inl e \<Rightarrow> Inl e | Inr f \<Rightarrow> Inr (f, b)))
   \<and> (2 \<le> count_list t (CHR ''-'') \<longrightarrow> extract_distance_id lookup (Some t) = Inl ValueError)"
  using extract_no_sep extract_one_sep extract_many_sep by blast

theorem extract_distance_id_parses_witness:
  "CHR ''-'' \<notin> set ''swap''
   \<and> extract_distance_id ex_lookup (Some ''swap'') = Inr (None, ''swap'')
   \<and> CHR ''-'' \<notin> set ''l1'' \<and> CHR ''-'' \<notin> set ''positionwise''
   \<and> extract_distance_id ex_lookup (Some ''l1-positionwise'')
        = Inr (Some 1, ''positionwise'')
   \<and> 2 \<le> count_list ''a-b-c'' (CHR ''-'')
   \<and> extract_distance_id ex_lookup (Some ''a-b-c'') = Inl ValueError"
  using extract_distance_id_parses [of "''swap''" ex_lookup "''l1''" "''positionwise''" "''a-b-c''"]
  by (simp add: ex_lookup_def)

lemma ex_types:
  "type_of ex_world 0 = OrdinalElection" "type_of ex_world (Suc 0) = OrdinalElection"
  "type_of ex_world 2 = ApprovalElection"
  "type_of ex_world 3 = OtherClass ''MyApprovalElection'' [ApprovalElection]"
  "type_of ex_world 4 = OrdinalElection"
  by (simp_all add: type_of_def ex_world_def ex_objs_def)

lemma ex_registries:
  "registered_ordinal_distances ex_env ''swap'' = Some ex_swap"
  "registered_ordinal_distances ex_env ''counting'' = Some ex_counting"
  "registered_approval_distances ex_env ''approvalwise'' = Some ex_approvalwise"
  "registered_approval_distances ex_env ''swap'' = None"
  "registered_ordinal_distances ex_env ''nonexistent'' = None"
  "registered_approval_distances ex_env ''nonexistent'' = None"
  "map_str_to_func ex_env = ex_lookup"
  by (simp_all add: ex_env_def add_ordinal_distance_def add_approval_distance_def)

subsection \<open>The dispatcher (C4, C5, C9, C10)\<close>

text \<open>
  Claim C4. When the two elections passed to \<^verbatim>\<open>get_distance\<close> have different classes
  (one \<^verbatim>\<open>ApprovalElection\<close> and one \<^verbatim>\<open>OrdinalElection\<close>, or any other two that differ),
  the call returns \<^verbatim>\<open>None\<close>, logs one warning and invokes no metric: the trace of
  metric calls is unchanged. Hence whenever \<^verbatim>\<open>get_distance\<close> returns with a metric
  invoked, the two elections have the same class.
\<close>

theorem family_mismatch_no_metric:
  "(type_of w election_1 \<noteq> type_of w election_2 \<longrightarrow>
      get_distance g election_1 election_2 did w =
        Inr (RNone, logging_warning ''No such instance!'' w)
      \<and> calls (logging_warning ''No such instance!'' w) = calls w
      \<and> warnings (logging_warning ''No such instance!'' w) = warnings w @ [''No such instance!''])
   \<and> (get_distance g election_1 election_2 did w = Inr (r, w') \<and> calls w' \<noteq> calls w \<longrightarrow>
        type_of w election_1 = type_of w election_2)"
  by (auto simp: get_distance_def logging_warning_def split: if_splits)

theorem family_mismatch_no_metric_witness:
  "type_of ex_world 2 \<noteq> type_of ex_world 0
   \<and> get_distance ex_env 2 0 (Some ''swap'') ex_world =
       Inr (RNone, logging_warning ''No such instance!'' ex_world)
   \<and> calls (logging_warning ''No such instance!'' ex_world) = calls ex_world
   \<and> get_distance ex_env 0 1 (Some ''swap'') ex_world =
       Inr (RTuple (Finite 12) [1, 2, 0], ex_world\<lparr>calls := [(''swap'', 0, 1)]\<rparr>)
   \<and> calls (ex_world\<lparr>calls := [(''swap'', 0, 1)]\<rparr>) \<noteq> calls ex_world
   \<and> type_of ex_world 0 = type_of ex_world 1"
proof -
  have a: "type_of ex_world 2 \<noteq> type_of ex_world 0"
    by (simp add: ex_types)
  have b: "get_distance ex_env 0 1 (Some ''swap'') ex_world =
       Inr (RTuple (Finite 12) [1, 2, 0], ex_world\<lparr>calls := [(''swap'', 0, 1)]\<rparr>)"
    by (simp add: get_distance_def ex_types get_ordinal_distance_def extract_distance_id_def
        ex_registries call_metric_def ex_swap_def)
      (simp add: ex_world_def ex_objs_def)
  have c: "calls (ex_world\<lparr>calls := [(''swap'', 0, 1)]\<rparr>) \<noteq> calls ex_world"
    by (simp add: ex_world_def)
  show ?thesis
    using a b c
      family_mismatch_no_metric [of ex_world 2 0 ex_env "Some ''swap''"]
      family_mismatch_no_metric [of ex_world 0 1 ex_env "Some ''swap''"
        "RTuple (Finite 12) [1, 2, 0]" "ex_world\<lparr>calls := [(''swap'', 0, 1)]\<rparr>"]
    by simp
qed

text \<open>
  Claim C5. When the identifier parses to a main distance that is not a key of the
  approval registry, \<^verbatim>\<open>get_approval_distance\<close> returns \<^verbatim>\<open>None\<close> and logs the warning
  naming that distance; the trace of metric calls and the heap are unchanged, so no
  metric, and no substitute for it, has run. The same holds for
  \<^verbatim>\<open>get_ordinal_distance\<close> and the ordinal registry.
\<close>

theorem unknown_distance_no_metric:
  assumes "extract_distance_id (map_str_to_func g) did = Inr (inner_distance, main_distance)"
  shows "(main_distance \<notin> dom (registered_approval_distances g) \<longrightarrow>
            get_approval_distance g election_1 election_2 did kwargs w =
              Inr (RNone, logging_warning (''No such distance as: '' @ main_distance @ ''!'') w))
       \<and> (main_distance \<notin> dom (registered_ordinal_distances g) \<longrightarrow>
            get_ordinal_distance g election_1 election_2 did kwargs w =
              Inr (RNone, logging_warning (''No such distance as: '' @ main_distance @ ''!'') w))
       \<and> calls (logging_warning (''No such distance as: '' @ main_distance @ ''!'') w) = calls w
       \<and> heap (logging_warning (''No such distance as: '' @ main_distance @ ''!'') w) = heap w
       \<and> warnings (logging_warning (''No such distance as: '' @ main_distance @ ''!'') w) =
           warnings w @ [''No such distance as: '' @ main_distance @ ''!'']"
  using assms
  by (auto simp: get_approval_distance_def get_ordinal_distance_def logging_warning_def domIff)

theorem unknown_distance_no_metric_witness:
  "extract_distance_id (map_str_to_func ex_env) (Some ''l1-nonexistent'') =
     Inr (Some 1, ''nonexistent'')
   \<and> ''nonexistent'' \<notin> dom (registered_approval_distances ex_env)
   \<and> ''nonexistent'' \<notin> dom (registered_ordinal_distances ex_env)
   \<and> get_approval_distance ex_env 2 2 (Some ''l1-nonexistent'') [] ex_world =
       Inr (RNone, logging_warning ''No such distance as: nonexistent!'' ex_world)
   \<and> get_ordinal_distance ex_env 0 1 (Some ''l1-nonexistent'') [] ex_world =
       Inr (RNone, logging_warning ''No such distance as: nonexistent!'' ex_world)
   \<and> calls (logging_warning ''No such distance as: nonexistent!'' ex_world) = []
   \<and> warnings (logging_warning ''No such distance as: nonexistent!'' ex_world) =
       [''No such distance as: nonexistent!'']"
proof -
  have a: "extract_distance_id (map_str_to_func ex_env) (Some ''l1-nonexistent'') =
     Inr (Some 1, ''nonexistent'')"
    by (simp add: ex_registries extract_distance_id_def ex_lookup_def)
  have b: "''nonexistent'' \<notin> dom (registered_approval_distances ex_env)"
    "''nonexistent'' \<notin> dom (registered_ordinal_distances ex_env)"
    by (simp_all add: domIff ex_registries)
  have c: "calls ex_world = []" "warnings ex_world = []"
    by (simp_all add: ex_world_def)
  show ?thesis
    using a b c unknown_distance_no_metric [OF a, of 2 2 "[]" ex_world]
      unknown_distance_no_metric [OF a, of 0 1 "[]" ex_world]
    by simp
qed

text \<open>
  Claim C9. With the default identifier \<^verbatim>\<open>None\<close>, \<^verbatim>\<open>_extract_distance_id\<close> raises
  \<^verbatim>\<open>TypeError\<close>, and so do \<^verbatim>\<open>get_approval_distance\<close>, \<^verbatim>\<open>get_ordinal_distance\<close> and, for
  two elections that are both of class \<^verbatim>\<open>ApprovalElection\<close> or both of class
  \<^verbatim>\<open>OrdinalElection\<close>, \<^verbatim>\<open>get_distance\<close>.
\<close>

theorem default_distance_id_raises:
  "extract_distance_id (map_str_to_func g) None = Inl TypeError
   \<and> get_approval_distance g election_1 election_2 None kwargs w = Inl TypeError
   \<and> get_ordinal_distance g election_1 election_2 None kwargs w = Inl TypeError
   \<and> ((type_of w election_1 = ApprovalElection \<and> type_of w election_2 = ApprovalElection)
        \<or> (type_of w election_1 = OrdinalElection \<and> type_of w election_2 = OrdinalElection)
       \<longrightarrow> get_distance g election_1 election_2 None w = Inl TypeError)"
  by (auto simp: extract_distance_id_def get_approval_distance_def get_ordinal_distance_def
      get_distance_def)

theorem default_distance_id_raises_witness:
  "type_of ex_world 0 = OrdinalElection \<and> type_of ex_world 1 = OrdinalElection
   \<and> get_distance ex_env 0 1 None ex_world = Inl TypeError
   \<and> get_ordinal_distance ex_env 0 1 None [] ex_world = Inl TypeError
   \<and> get_approval_distance ex_env 2 2 None [] ex_world = Inl TypeError"
  using default_distance_id_raises [of ex_env 0 1 "[]" ex_world]
    default_distance_id_raises [of ex_env 2 2 "[]" ex_world]
  by (simp add: ex_types)

text \<open>
  Claim C10. \<^verbatim>\<open>get_distance\<close> compares classes by identity: when the class of at least
  one of the two elections is a strict subclass of \<^verbatim>\<open>ApprovalElection\<close> or of
  \<^verbatim>\<open>OrdinalElection\<close>, the call logs the family-mismatch warning and returns \<^verbatim>\<open>None\<close>
  without invoking a metric.
\<close>

theorem subclass_is_family_mismatch:
  assumes "strict_subclass (type_of w election_1) ApprovalElection
           \<or> strict_subclass (type_of w election_1) OrdinalElection
           \<or> strict_subclass (type_of w election_2) ApprovalElection
           \<or> strict_subclass (type_of w election_2) OrdinalElection"
  shows "get_distance g election_1 election_2 did w =
           Inr (RNone, logging_warning ''No such instance!'' w)
         \<and> calls (logging_warning ''No such instance!'' w) = calls w
         \<and> warnings (logging_warning ''No such instance!'' w) =
             warnings w @ [''No such instance!'']"
  using assms strict_subclass_not_base [of "type_of w election_1"]
    strict_subclass_not_base [of "type_of w election_2"]
  by (auto simp: get_distance_def logging_warning_def)

theorem subclass_is_family_mismatch_witness:
  "strict_subclass (type_of ex_world 3) ApprovalElection
   \<and> issubclass (type_of ex_world 3) ApprovalElection
   \<and> issubclass (type_of ex_world 2) ApprovalElection
   \<and> get_distance ex_env 3 2 (Some ''approvalwise'') ex_world =
       Inr (RNone, logging_warning ''No such instance!'' ex_world)
   \<and> get_distance ex_env 2 3 (Some ''approvalwise'') ex_world =
       Inr (RNone, logging_warning ''No such instance!'' ex_world)
   \<and> get_distance ex_env 3 3 (Some ''approvalwise'') ex_world =
       Inr (RNone, logging_warning ''No such instance!'' ex_world)"
proof -
  have a: "strict_subclass (type_of ex_world 3) ApprovalElection"
    by (simp add: ex_types strict_subclass_def)
  show ?thesis
    using a subclass_is_family_mismatch [of ex_world 3 2 ex_env "Some ''approvalwise''"]
      subclass_is_family_mismatch [of ex_world 2 3 ex_env "Some ''approvalwise''"]
      subclass_is_family_mismatch [of ex_world 3 3 ex_env "Some ''approvalwise''"]
    by (simp add: ex_types)
qed

subsection \<open>Writing the matrices\<close>

lemma cell_set_cell:
  "set_cell m i j v = Inr m' \<Longrightarrow>
     cell m' a b = (if a = i \<and> b = j then Some v else cell m a b)"
  by (cases "m i") (auto simp: set_cell_def cell_def)


lemma get_cell_cell: "get_cell m i j = Inr v \<longleftrightarrow> cell m i j = Some v"
  by (auto simp: get_cell_def cell_def split: option.splits)

lemma store_mirrored_steps:
  assumes "store_mirrored m i j v = Inr m'"
  shows "\<exists>m1. set_cell m i j v = Inr m1 \<and> set_cell m1 j i v = Inr m'"
proof (cases "set_cell m i j v")
  case (Inl e)
  then show ?thesis using assms by (simp add: store_mirrored_def)
next
  case (Inr m1)
  have "cell m1 i j = Some v"
    by (simp add: cell_set_cell [OF Inr])
  then have g: "get_cell m1 i j = Inr v"
    by (simp only: get_cell_cell)
  have "store_mirrored m i j v = set_cell m1 j i v"
    unfolding store_mirrored_def by (simp only: Inr g sum.case)
  then show ?thesis using assms Inr by simp
qed

lemma store_mirrored_cells:
  assumes "store_mirrored m i j v = Inr m'"
  shows "cell m' a b = (if (a = i \<and> b = j) \<or> (a = j \<and> b = i) then Some v else cell m a b)"
proof -
  obtain m1 where m1: "set_cell m i j v = Inr m1" and m': "set_cell m1 j i v = Inr m'"
    using store_mirrored_steps [OF assms] by blast
  have "cell m' a b = (if a = j \<and> b = i then Some v else if a = i \<and> b = j then Some v else cell m a b)"
    by (simp only: cell_set_cell [OF m'] cell_set_cell [OF m1])
  then show ?thesis by presburger
qed


lemma store_result_steps:
  assumes "store_result i j start_time distance ms w = Inr (ms', w')"
  shows "\<exists>d m1 d1 t1.
           store_matching i j distance (matchings ms) = Inr (d, m1)
         \<and> store_mirrored (distances ms) i j d = Inr d1
         \<and> store_mirrored (times_m ms) i j (fst (time_now w) - start_time) = Inr t1
         \<and> ms' = ms\<lparr>distances := d1, times_m := t1, matchings := m1\<rparr>
         \<and> w' = snd (time_now w)"
proof (cases "store_matching i j distance (matchings ms)")
  case (Inl e)
  then show ?thesis using assms by (simp add: store_result_def)
next
  case sm: (Inr dm)
  obtain d m1 where dm: "dm = (d, m1)" by (cases dm)
  show ?thesis
  proof (cases "store_mirrored (distances ms) i j d")
    case (Inl e)
    then show ?thesis using assms sm dm by (simp add: store_result_def)
  next
    case sd: (Inr d1)
    show ?thesis
    proof (cases "store_mirrored (times_m ms) i j (fst (time_now w) - start_time)")
      case (Inl e)
      then show ?thesis using assms sm dm sd
        by (simp add: store_result_def split: prod.splits)
    next
      case st: (Inr t1)
      then show ?thesis using assms sm dm sd
        by (simp add: store_result_def split: prod.splits)
    qed
  qed
qed

lemma store_result_mirrored:
  assumes "store_result i j start_time distance ms w = Inr (ms', w')"
  shows "\<exists>d. \<forall>a b. cell (distances ms') a b =
              (if (a = i \<and> b = j) \<or> (a = j \<and> b = i) then Some d else cell (distances ms) a b)"
    and "\<exists>t. \<forall>a b. cell (times_m ms') a b =
              (if (a = i \<and> b = j) \<or> (a = j \<and> b = i) then Some t else cell (times_m ms) a b)"
proof -
  obtain d m1 d1 t1 where sd: "store_mirrored (distances ms) i j d = Inr d1"
    and st: "store_mirrored (times_m ms) i j (fst (time_now w) - start_time) = Inr t1"
    and ms': "ms' = ms\<lparr>distances := d1, times_m := t1, matchings := m1\<rparr>"
    using store_result_steps [OF assms] by blast
  have "distances ms' = d1" "times_m ms' = t1" using ms' by simp_all
  then show "\<exists>d. \<forall>a b. cell (distances ms') a b =
              (if (a = i \<and> b = j) \<or> (a = j \<and> b = i) then Some d else cell (distances ms) a b)"
    and "\<exists>t. \<forall>a b. cell (times_m ms') a b =
              (if (a = i \<and> b = j) \<or> (a = j \<and> b = i) then Some t else cell (times_m ms) a b)"
    using store_mirrored_cells [OF sd] store_mirrored_cells [OF st] by blast+
qed

subsection \<open>Symmetry of distances and times (C1)\<close>

lemma multiple_iteration_single:
  "multiple_iteration g experiment i j ms w = single_iteration g experiment True i j ms w"
  by (simp add: multiple_iteration_def single_iteration_def)

lemma multiple_loop_single:
  "multiple_loop g experiment ids ms w = run_single_process g experiment ids ms True w"
proof (induction ids arbitrary: ms w)
  case Nil
  show ?case by simp
next
  case (Cons p ids)
  obtain i j where p: "p = (i, j)" by (cases p)
  show ?case
    by (simp add: p multiple_iteration_single Cons.IH split: sum.splits)
qed

lemma single_iteration_stores:
  assumes "single_iteration g experiment safe_mode i j ms w = Inr (ms', w')"
  shows "\<exists>distance w2.
           (if safe_mode then get_distance_copied g experiment i j (snd (time_now w))
            else get_distance_direct g experiment i j (snd (time_now w))) = Inr (distance, w2)
         \<and> store_result i j (fst (time_now w)) distance ms w2 = Inr (ms', w')"
  using assms
  by (auto simp: single_iteration_def split: prod.splits sum.splits)

lemma mirrored_iff: "mirrored m i j \<longleftrightarrow> (\<exists>v. cell m i j = Some v \<and> cell m j i = Some v)"
  by (cases "cell m i j") (auto simp: mirrored_def)

lemma mirrored_after_write:
  assumes "\<forall>a b. cell m' a b =
             (if (a = i \<and> b = j) \<or> (a = j \<and> b = i) then Some d else cell m a b)"
  shows "mirrored m' i j" and "mirrored m a b \<Longrightarrow> mirrored m' a b"
proof -
  have "cell m' i j = Some d" "cell m' j i = Some d"
    using assms by simp_all
  then show "mirrored m' i j" unfolding mirrored_iff by blast
next
  assume "mirrored m a b"
  then obtain v where v: "cell m a b = Some v" "cell m b a = Some v"
    unfolding mirrored_iff by blast
  show "mirrored m' a b"
  proof (cases "(a = i \<and> b = j) \<or> (a = j \<and> b = i)")
    case True
    then have "cell m' a b = Some d" "cell m' b a = Some d"
      using assms by auto
    then show ?thesis unfolding mirrored_iff by blast
  next
    case False
    then have "cell m' a b = Some v" "cell m' b a = Some v"
      using assms v by auto
    then show ?thesis unfolding mirrored_iff by blast
  qed
qed

lemma single_iteration_mirrored:
  assumes "single_iteration g experiment safe_mode i j ms w = Inr (ms', w')"
  shows "mirrored (distances ms') i j" and "mirrored (times_m ms') i j"
    and "mirrored (distances ms) a b \<Longrightarrow> mirrored (distances ms') a b"
    and "mirrored (times_m ms) a b \<Longrightarrow> mirrored (times_m ms') a b"
proof -
  obtain distance w2 where
    sr: "store_result i j (fst (time_now w)) distance ms w2 = Inr (ms', w')"
    using single_iteration_stores [OF assms] by blast
  obtain d where d: "\<forall>a b. cell (distances ms') a b =
      (if (a = i \<and> b = j) \<or> (a = j \<and> b = i) then Some d else cell (distances ms) a b)"
    using store_result_mirrored(1) [OF sr] by blast
  obtain t where t: "\<forall>a b. cell (times_m ms') a b =
      (if (a = i \<and> b = j) \<or> (a = j \<and> b = i) then Some t else cell (times_m ms) a b)"
    using store_result_mirrored(2) [OF sr] by blast
  show "mirrored (distances ms') i j" by (rule mirrored_after_write(1) [OF d])
  show "mirrored (times_m ms') i j" by (rule mirrored_after_write(1) [OF t])
  show "mirrored (distances ms) a b \<Longrightarrow> mirrored (distances ms') a b"
    by (rule mirrored_after_write(2) [OF d])
  show "mirrored (times_m ms) a b \<Longrightarrow> mirrored (times_m ms') a b"
    by (rule mirrored_after_write(2) [OF t])
qed

lemma run_single_process_mirrored:
  assumes "run_single_process g experiment ids ms safe_mode w = Inr (ms', w')"
    and "(a, b) \<in> set ids \<or> (mirrored (distances ms) a b \<and> mirrored (times_m ms) a b)"
  shows "mirrored (distances ms') a b \<and> mirrored (times_m ms') a b"
  using assms
proof (induction ids arbitrary: ms w)
  case Nil
  then show ?case by simp
next
  case (Cons p ids)
  obtain i j where p: "p = (i, j)" by (cases p)
  obtain ms1 w1 where
    it: "single_iteration g experiment safe_mode i j ms w = Inr (ms1, w1)"
    and rest: "run_single_process g experiment ids ms1 safe_mode w1 = Inr (ms', w')"
    using Cons.prems(1) by (auto simp: p split: sum.splits)
  have "(a, b) \<in> set ids \<or> (mirrored (distances ms1) a b \<and> mirrored (times_m ms1) a b)"
    using Cons.prems(2) single_iteration_mirrored [OF it] by (auto simp: p)
  then show ?case by (rule Cons.IH [OF rest])
qed

lemma py_eq_same: "py_eq d d = (d \<noteq> PyFloat NaN)"
  by (cases d) auto

text \<open>
  Claim C1, as the code has it. When either scheduler returns, for every pair
  \<open>(i, j)\<close> of the request list the cells \<^verbatim>\<open>distances[i][j]\<close> and \<^verbatim>\<open>distances[j][i]\<close>
  are present and hold the same stored value \<open>d\<close>, so that
  \<^verbatim>\<open>distances[i][j] == distances[j][i]\<close> is true exactly when \<open>d\<close> is not NaN; and the
  cells \<^verbatim>\<open>times[i][j]\<close> and \<^verbatim>\<open>times[j][i]\<close> are present and equal. (The times are
  differences of two readings of the clock, which are finite floats: on them
  \<^verbatim>\<open>==\<close> is equality of values.)
\<close>

theorem matrices_symmetric:
  assumes "run_single_process g experiment ids ms safe_mode w = Inr (ms', w')
           \<or> run_multiple_processes g experiment ids ms process_id w = Inr (ms', w')"
    and "(i, j) \<in> set ids"
  shows "\<exists>d t. cell (distances ms') i j = Some d \<and> cell (distances ms') j i = Some d
           \<and> py_eq d d = (d \<noteq> PyFloat NaN)
           \<and> cell (times_m ms') i j = Some t \<and> cell (times_m ms') j i = Some t"
proof -
  have "\<exists>sm w''. run_single_process g experiment ids ms sm w = Inr (ms', w'')"
    using assms(1)
    by (auto simp: run_multiple_processes_def multiple_loop_single split: sum.splits)
  then obtain sm w'' where "run_single_process g experiment ids ms sm w = Inr (ms', w'')"
    by blast
  then have "mirrored (distances ms') i j \<and> mirrored (times_m ms') i j"
    using assms(2) by (rule run_single_process_mirrored [OF _ disjI1])
  then obtain d t where "cell (distances ms') i j = Some d" "cell (distances ms') j i = Some d"
    "cell (times_m ms') i j = Some t" "cell (times_m ms') j i = Some t"
    unfolding mirrored_iff by blast
  then show ?thesis using py_eq_same by blast
qed

lemmas ex_defs = ex_env_def ex_experiment_def ex_matrices_def ex_rows_def ex_world_def ex_objs_def
  ex_swap_def ex_counting_def ex_approvalwise_def ex_blank_def ex_lookup_def
  add_ordinal_distance_def
  add_approval_distance_def

lemmas run_defs = single_iteration_def multiple_iteration_def store_result_def store_mirrored_def
  store_matching_def set_cell_def get_cell_def get_distance_direct_def get_distance_copied_def
  get_instance_def deepcopy_def get_distance_def get_ordinal_distance_def get_approval_distance_def
  call_metric_def extract_distance_id_def time_now_def type_of_def logging_warning_def

theorem matrices_symmetric_witness:
  "ex_single_run = Inr (projr ex_single_run) \<and> ex_multiple_run = Inr (projr ex_multiple_run)
   \<and> (4, 1) \<in> set [(0, 1), (4, 1 :: nat)]
   \<and> cell (distances (fst (projr ex_single_run))) 4 1 = Some (PyFloat (Finite 16))
   \<and> cell (distances (fst (projr ex_single_run))) 1 4 = Some (PyFloat (Finite 16))
   \<and> py_eq (PyFloat (Finite 16)) (PyFloat (Finite 16))
   \<and> cell (times_m (fst (projr ex_single_run))) 4 1 = Some 3
   \<and> cell (times_m (fst (projr ex_single_run))) 1 4 = Some 3
   \<and> cell (distances (fst (projr ex_multiple_run))) 4 1
       = cell (distances (fst (projr ex_multiple_run))) 1 4
   \<and> cell (times_m (fst (projr ex_multiple_run))) 4 1
       = cell (times_m (fst (projr ex_multiple_run))) 1 4"
proof -
  have s: "ex_single_run = Inr (projr ex_single_run)"
    by (simp add: ex_single_run_def ex_defs run_defs)
  have m: "ex_multiple_run = Inr (projr ex_multiple_run)"
    by (simp add: ex_multiple_run_def run_multiple_processes_def ex_defs run_defs)
  have v: "cell (distances (fst (projr ex_single_run))) 4 1 = Some (PyFloat (Finite 16))"
    "cell (times_m (fst (projr ex_single_run))) 4 1 = Some 3"
    by (simp_all add: ex_single_run_def ex_defs run_defs cell_def)
  have s': "run_single_process ex_env (ex_experiment ''swap'') [(0, 1), (4, 1)] ex_matrices False
              ex_world = Inr (fst (projr ex_single_run), snd (projr ex_single_run))"
    using s by (simp add: ex_single_run_def)
  have m': "run_multiple_processes ex_env (ex_experiment ''swap'') [(0, 1), (4, 1)] ex_matrices 0
              ex_world = Inr (fst (projr ex_multiple_run), snd (projr ex_multiple_run))"
    using m by (simp add: ex_multiple_run_def)
  have mem: "(4, 1) \<in> set [(0, 1), (4, 1 :: nat)]" by simp
  obtain d t where a: "cell (distances (fst (projr ex_single_run))) 4 1 = Some d"
    "cell (distances (fst (projr ex_single_run))) 1 4 = Some d"
    "py_eq d d = (d \<noteq> PyFloat NaN)"
    "cell (times_m (fst (projr ex_single_run))) 4 1 = Some t"
    "cell (times_m (fst (projr ex_single_run))) 1 4 = Some t"
    using matrices_symmetric [OF disjI1 [OF s'] mem] by blast
  have d: "d = PyFloat (Finite 16)" and t: "t = 3" using a(1,4) v by simp_all
  obtain d' t' where b: "cell (distances (fst (projr ex_multiple_run))) 4 1 = Some d'"
    "cell (distances (fst (projr ex_multiple_run))) 1 4 = Some d'"
    "cell (times_m (fst (projr ex_multiple_run))) 4 1 = Some t'"
    "cell (times_m (fst (projr ex_multiple_run))) 1 4 = Some t'"
    using matrices_symmetric [OF disjI2 [OF m'] mem] by blast
  show ?thesis
    using s m mem a(2,3,5) b v by (simp add: d t)
qed

text \<open>
  Claim C1 as stated fails for a metric that returns NaN: both schedulers store it in
  \<^verbatim>\<open>distances[0][1]\<close> and \<^verbatim>\<open>distances[1][0]\<close>, and NaN is not equal to itself.
\<close>

theorem matrices_symmetric_counterexample:
  "ex_nan_run = Inr (projr ex_nan_run)
   \<and> cell (distances (fst (projr ex_nan_run))) 0 1 = Some (PyFloat NaN)
   \<and> cell (distances (fst (projr ex_nan_run))) 1 0 = Some (PyFloat NaN)
   \<and> ex_nan_workers_run = Inr (projr ex_nan_workers_run)
   \<and> cell (distances (fst (projr ex_nan_workers_run))) 0 1 = Some (PyFloat NaN)
   \<and> cell (distances (fst (projr ex_nan_workers_run))) 1 0 = Some (PyFloat NaN)
   \<and> \<not> py_eq (PyFloat NaN) (PyFloat NaN)"
  by (simp add: ex_nan_run_def ex_nan_workers_run_def run_multiple_processes_def ex_defs run_defs
      cell_def)

subsection \<open>Matchings and their inverses (C2)\<close>

text \<open>
  For a permutation \<open>p\<close> of \<open>0, ..., n - 1\<close>, sorting the indices by \<open>p\<close> gives the
  inverse permutation.
\<close>

lemma argsort_inverse:
  assumes perm: "is_permutation p" and k: "k < length p"
  shows "np_getitem (argsort p) (p ! k) = Inr (int k)"
proof -
  define n where "n = length p"
  define q where "q = sort_key (\<lambda>i. p ! i) [0..<n]"
  have sorted_p: "sort p = map int [0..<n]"
    using perm by (simp add: is_permutation_def n_def)
  have mset_q: "mset q = mset [0..<n]"
    by (simp add: q_def)
  have set_q: "set q = {0..<n}"
    using mset_eq_setD [OF mset_q] by simp
  have len_q: "length q = n"
    using mset_eq_length [OF mset_q] by simp
  have "mset (map (\<lambda>i. p ! i) q) = mset (map (\<lambda>i. p ! i) [0..<n])"
    using mset_q by (metis mset_map)
  also have "map (\<lambda>i. p ! i) [0..<n] = p"
    unfolding n_def by (rule map_nth)
  finally have m: "mset (map (\<lambda>i. p ! i) q) = mset p" .
  have "sorted (map (\<lambda>i. p ! i) q)"
    unfolding q_def by (rule sorted_sort_key)
  then have "sort p = map (\<lambda>i. p ! i) q"
    using m by (simp add: properties_for_sort)
  then have eq: "map (\<lambda>i. p ! i) q = map int [0..<n]"
    using sorted_p by simp
  have at: "p ! (q ! m) = int m" if "m < n" for m
  proof -
    have "map (\<lambda>i. p ! i) q ! m = map int [0..<n] ! m"
      by (simp only: eq)
    then show ?thesis using that len_q by simp
  qed
  have "distinct (sort p)"
    unfolding sorted_p by (simp add: distinct_map)
  then have dist: "distinct p" by simp
  have "set p = set (sort p)" by simp
  then have "set p = int ` {0..<n}"
    unfolding sorted_p by simp
  moreover have "p ! k \<in> set p" using k by simp
  ultimately obtain m where m: "m < n" "p ! k = int m" by auto
  have "q ! m \<in> set q" using m(1) len_q by simp
  then have qm: "q ! m < length p" using set_q by (simp add: n_def)
  have "p ! (q ! m) = p ! k" using at [OF m(1)] m(2) by simp
  then have "q ! m = k"
    using dist qm k by (simp add: nth_eq_iff_index_eq)
  then show ?thesis
    using m len_q by (simp add: np_getitem_def argsort_def q_def [symmetric] n_def [symmetric])
qed

lemma store_matching_tuple:
  assumes "store_matching i j (RTuple x p) m = Inr (d, m')"
  shows "cell m' a b = (if a = j \<and> b = i then Some (argsort p)
                         else if a = i \<and> b = j then Some p else cell m a b)"
proof (cases "set_cell m i j p")
  case (Inl e)
  then show ?thesis using assms by (simp add: store_matching_def)
next
  case m1: (Inr m1)
  show ?thesis
  proof (cases "set_cell m1 j i (argsort p)")
    case (Inl e)
    then show ?thesis using assms m1 by (simp add: store_matching_def)
  next
    case (Inr m2)
    then have "m' = m2" using assms m1 by (simp add: store_matching_def)
    then show ?thesis
      by (simp only: cell_set_cell [OF Inr] cell_set_cell [OF m1])
  qed
qed

lemma store_matching_frame:
  assumes "store_matching i j distance m = Inr (d, m')"
    and "\<not> (a = i \<and> b = j)" and "\<not> (a = j \<and> b = i)"
  shows "cell m' a b = cell m a b"
proof (cases distance)
  case (RTuple x p)
  show ?thesis
    using store_matching_tuple [OF assms(1) [unfolded RTuple], of a b] assms(2,3) by simp
qed (use assms(1) in \<open>simp_all add: store_matching_def\<close>)

lemma single_iteration_matchings_frame:
  assumes "single_iteration g experiment safe_mode i j ms w = Inr (ms', w')"
    and "\<not> (a = i \<and> b = j)" and "\<not> (a = j \<and> b = i)"
  shows "cell (matchings ms') a b = cell (matchings ms) a b"
proof -
  obtain distance w2 where
    sr: "store_result i j (fst (time_now w)) distance ms w2 = Inr (ms', w')"
    using single_iteration_stores [OF assms(1)] by blast
  obtain d m1 d1 t1 where sm: "store_matching i j distance (matchings ms) = Inr (d, m1)"
    and ms': "ms' = ms\<lparr>distances := d1, times_m := t1, matchings := m1\<rparr>"
    using store_result_steps [OF sr] by blast
  have "matchings ms' = m1" using ms' by simp
  then show ?thesis using store_matching_frame [OF sm assms(2,3)] by simp
qed

lemma run_single_process_matchings_frame:
  assumes "run_single_process g experiment ids ms safe_mode w = Inr (ms', w')"
    and "(a, b) \<notin> set ids" and "(b, a) \<notin> set ids"
  shows "cell (matchings ms') a b = cell (matchings ms) a b"
  using assms
proof (induction ids arbitrary: ms w)
  case Nil
  then show ?case by simp
next
  case (Cons p ids)
  obtain i j where p: "p = (i, j)" by (cases p)
  obtain ms1 w1 where
    it: "single_iteration g experiment safe_mode i j ms w = Inr (ms1, w1)"
    and rest: "run_single_process g experiment ids ms1 safe_mode w1 = Inr (ms', w')"
    using Cons.prems(1) by (auto simp: p split: sum.splits)
  have "cell (matchings ms1) a b = cell (matchings ms) a b"
    using single_iteration_matchings_frame [OF it, of a b] Cons.prems(2,3) by (auto simp: p)
  moreover have "cell (matchings ms') a b = cell (matchings ms1) a b"
    using Cons.IH [OF rest] Cons.prems(2,3) by simp
  ultimately show ?case by simp
qed

lemma run_single_process_append:
  "run_single_process g experiment (xs @ ys) ms safe_mode w =
     (case run_single_process g experiment xs ms safe_mode w of
        Inl e \<Rightarrow> Inl e
      | Inr (ms1, w1) \<Rightarrow> run_single_process g experiment ys ms1 safe_mode w1)"
proof (induction xs arbitrary: ms w)
  case Nil
  show ?case by simp
next
  case (Cons p xs)
  obtain i j where p: "p = (i, j)" by (cases p)
  show ?case
    by (simp add: p Cons.IH split: sum.splits)
qed

lemma single_iteration_tuple:
  assumes "single_iteration g experiment safe_mode i j ms w = Inr (ms', w')"
    and "(if safe_mode then get_distance_copied g experiment i j (snd (time_now w))
          else get_distance_direct g experiment i j (snd (time_now w))) = Inr (RTuple d p, w2)"
  shows "cell (matchings ms') j i = Some (argsort p)"
    and "i \<noteq> j \<Longrightarrow> cell (matchings ms') i j = Some p"
proof -
  have sr: "store_result i j (fst (time_now w)) (RTuple d p) ms w2 = Inr (ms', w')"
    using single_iteration_stores [OF assms(1)] assms(2) by auto
  obtain x m1 d1 t1 where sm: "store_matching i j (RTuple d p) (matchings ms) = Inr (x, m1)"
    and ms': "ms' = ms\<lparr>distances := d1, times_m := t1, matchings := m1\<rparr>"
    using store_result_steps [OF sr] by blast
  have m: "matchings ms' = m1" using ms' by simp
  show "cell (matchings ms') j i = Some (argsort p)"
    unfolding m by (simp add: store_matching_tuple [OF sm])
  show "i \<noteq> j \<Longrightarrow> cell (matchings ms') i j = Some p"
    unfolding m by (simp add: store_matching_tuple [OF sm])
qed

lemma stored_after_prefix:
  assumes pre: "run_single_process g experiment pre ms safe_mode w = Inr (ms1, w1)"
    and disp: "(if safe_mode then get_distance_copied g experiment i j (snd (time_now w1))
          else get_distance_direct g experiment i j (snd (time_now w1))) = Inr (RTuple d p, w2)"
    and run: "run_single_process g experiment (pre @ (i, j) # post) ms safe_mode w = Inr (ms', w')"
    and post: "(i, j) \<notin> set post" "(j, i) \<notin> set post"
    and neq: "i \<noteq> j"
  shows "cell (matchings ms') i j = Some p \<and> cell (matchings ms') j i = Some (argsort p)"
proof -
  have "run_single_process g experiment ((i, j) # post) ms1 safe_mode w1 = Inr (ms', w')"
    using run pre by (simp add: run_single_process_append)
  then obtain ms2 w3 where
    it: "single_iteration g experiment safe_mode i j ms1 w1 = Inr (ms2, w3)"
    and rest: "run_single_process g experiment post ms2 safe_mode w3 = Inr (ms', w')"
    by (auto split: sum.splits)
  have "cell (matchings ms2) j i = Some (argsort p)" "cell (matchings ms2) i j = Some p"
    using single_iteration_tuple [OF it disp] neq by simp_all
  moreover have "cell (matchings ms') i j = cell (matchings ms2) i j"
    by (rule run_single_process_matchings_frame [OF rest post])
  moreover have "cell (matchings ms') j i = cell (matchings ms2) j i"
    by (rule run_single_process_matchings_frame [OF rest post(2,1)])
  ultimately show ?thesis by simp
qed

text \<open>
  Claim C2. Let the scheduler (either of the two) have processed the pairs \<open>pre\<close>,
  let the dispatch for the next pair \<open>(i, j)\<close>, \<open>i \<noteq> j\<close>, return a tuple of a scalar and
  an alignment \<open>p\<close>, and let no later pair of the list be \<open>(i, j)\<close> or \<open>(j, i)\<close>. Then
  after the run \<^verbatim>\<open>matchings[i][j]\<close> is \<open>p\<close> and \<^verbatim>\<open>matchings[j][i]\<close> is
  \<^verbatim>\<open>argsort(p)\<close>; and when \<open>p\<close> is a permutation of \<open>0, ..., n - 1\<close> this is its inverse:
  \<^verbatim>\<open>matchings[j][i][p[k]] == k\<close> for every index \<open>k\<close> of \<open>p\<close>.
\<close>

theorem matching_inverse_stored:
  assumes "i \<noteq> j" and "(i, j) \<notin> set post" and "(j, i) \<notin> set post" and "is_permutation p"
  shows "(run_single_process g experiment pre ms safe_mode w = Inr (ms1, w1)
          \<and> (if safe_mode then get_distance_copied g experiment i j (snd (time_now w1))
               else get_distance_direct g experiment i j (snd (time_now w1)))
              = Inr (RTuple d p, w2)
          \<and> run_single_process g experiment (pre @ (i, j) # post) ms safe_mode w = Inr (ms', w')
          \<longrightarrow> cell (matchings ms') i j = Some p
              \<and> cell (matchings ms') j i = Some (argsort p))
       \<and> (multiple_loop g experiment pre ms w = Inr (ms1, w1)
          \<and> get_distance_copied g experiment i j (snd (time_now w1)) = Inr (RTuple d p, w2)
          \<and> run_multiple_processes g experiment (pre @ (i, j) # post) ms process_id w
              = Inr (ms', w')
          \<longrightarrow> cell (matchings ms') i j = Some p
              \<and> cell (matchings ms') j i = Some (argsort p))
       \<and> (\<forall>k < length p. np_getitem (argsort p) (p ! k) = Inr (int k))"
proof (intro conjI impI allI)
  fix k assume "k < length p"
  then show "np_getitem (argsort p) (p ! k) = Inr (int k)"
    using assms(4) by (simp add: argsort_inverse)
next
  assume a: "run_single_process g experiment pre ms safe_mode w = Inr (ms1, w1)
          \<and> (if safe_mode then get_distance_copied g experiment i j (snd (time_now w1))
               else get_distance_direct g experiment i j (snd (time_now w1)))
              = Inr (RTuple d p, w2)
          \<and> run_single_process g experiment (pre @ (i, j) # post) ms safe_mode w = Inr (ms', w')"
  have r: "cell (matchings ms') i j = Some p \<and> cell (matchings ms') j i = Some (argsort p)"
    using stored_after_prefix [of g "experiment" pre ms safe_mode w ms1 w1 i j d p w2 post ms' w']
      a assms(1-3) by blast
  show "cell (matchings ms') i j = Some p" using r by simp
  show "cell (matchings ms') j i = Some (argsort p)" using r by simp
next
  assume a: "multiple_loop g experiment pre ms w = Inr (ms1, w1)
          \<and> get_distance_copied g experiment i j (snd (time_now w1)) = Inr (RTuple d p, w2)
          \<and> run_multiple_processes g experiment (pre @ (i, j) # post) ms process_id w
              = Inr (ms', w')"
  then obtain w'' where
    "run_single_process g experiment (pre @ (i, j) # post) ms True w = Inr (ms', w'')"
    by (auto simp: run_multiple_processes_def multiple_loop_single split: sum.splits)
  then have r: "cell (matchings ms') i j = Some p \<and> cell (matchings ms') j i = Some (argsort p)"
    using stored_after_prefix [of g "experiment" pre ms True w ms1 w1 i j d p w2 post ms' w'']
      a assms(1-3) by (simp add: multiple_loop_single)
  show "cell (matchings ms') i j = Some p" using r by simp
  show "cell (matchings ms') j i = Some (argsort p)" using r by simp
qed

lemma is_permutation_example: "is_permutation [1, 2, 0]"
  unfolding is_permutation_def by code_simp

lemma argsort_example: "argsort [1, 2, 0] = [2, 0, 1]"
  unfolding argsort_def by code_simp

theorem matching_inverse_stored_witness:
  "(0::nat) \<noteq> 1 \<and> (0, 1) \<notin> set [(4 :: nat, 0 :: nat)] \<and> (1, 0) \<notin> set [(4 :: nat, 0 :: nat)]
   \<and> is_permutation [1, 2, 0]
   \<and> ex_prefix_single = Inr (projr ex_prefix_single)
   \<and> fst (projr (get_distance_direct ex_env (ex_experiment ''swap'') 0 1
                    (snd (time_now (snd (projr ex_prefix_single)))))) = RTuple (Finite 12) [1, 2, 0]
   \<and> ex_whole_single = Inr (projr ex_whole_single)
   \<and> cell (matchings (fst (projr ex_whole_single))) 0 1 = Some [1, 2, 0]
   \<and> cell (matchings (fst (projr ex_whole_single))) 1 0 = Some [2, 0, 1]
   \<and> ex_prefix_multiple = Inr (projr ex_prefix_multiple)
   \<and> fst (projr (get_distance_copied ex_env (ex_experiment ''swap'') 0 1
                    (snd (time_now (snd (projr ex_prefix_multiple)))))) = RTuple (Finite 12) [1, 2, 0]
   \<and> ex_whole_multiple = Inr (projr ex_whole_multiple)
   \<and> cell (matchings (fst (projr ex_whole_multiple))) 0 1 = Some [1, 2, 0]
   \<and> cell (matchings (fst (projr ex_whole_multiple))) 1 0 = Some [2, 0, 1]
   \<and> np_getitem [2, 0, 1] 1 = Inr 0 \<and> np_getitem [2, 0, 1] 2 = Inr 1
   \<and> np_getitem [2, 0, 1] 0 = Inr 2"
proof -
  let ?e = "ex_experiment ''swap''"
  let ?ds = "get_distance_direct ex_env ?e 0 1 (snd (time_now (snd (projr ex_prefix_single))))"
  let ?dm = "get_distance_copied ex_env ?e 0 1 (snd (time_now (snd (projr ex_prefix_multiple))))"
  have h: "(0::nat) \<noteq> 1" "(0, 1) \<notin> set [(4 :: nat, 0 :: nat)]" "(1, 0) \<notin> set [(4 :: nat, 0 :: nat)]"
    by simp_all
  have ps: "ex_prefix_single = Inr (projr ex_prefix_single)"
    by (simp add: ex_prefix_single_def ex_defs run_defs)
  have ws: "ex_whole_single = Inr (projr ex_whole_single)"
    by (simp add: ex_whole_single_def ex_defs run_defs)
  have ds: "?ds = Inr (RTuple (Finite 12) [1, 2, 0], snd (projr ?ds))"
    by (simp add: ex_prefix_single_def ex_defs run_defs)
  have pm: "ex_prefix_multiple = Inr (projr ex_prefix_multiple)"
    by (simp add: ex_prefix_multiple_def ex_defs run_defs)
  have wm: "ex_whole_multiple = Inr (projr ex_whole_multiple)"
    by (simp add: ex_whole_multiple_def run_multiple_processes_def ex_defs run_defs)
  have dm: "?dm = Inr (RTuple (Finite 12) [1, 2, 0], snd (projr ?dm))"
    by (simp add: ex_prefix_multiple_def ex_defs run_defs)
  have single: "run_single_process ex_env ?e [(4, 1)] ex_matrices False ex_world
        = Inr (fst (projr ex_prefix_single), snd (projr ex_prefix_single))
      \<and> (if False then get_distance_copied ex_env ?e 0 1
                          (snd (time_now (snd (projr ex_prefix_single))))
          else ?ds) = Inr (RTuple (Finite 12) [1, 2, 0], snd (projr ?ds))
      \<and> run_single_process ex_env ?e ([(4, 1)] @ (0, 1) # [(4, 0)]) ex_matrices False ex_world
        = Inr (fst (projr ex_whole_single), snd (projr ex_whole_single))"
    using ps ws ds by (simp add: ex_prefix_single_def ex_whole_single_def)
  have multiple: "multiple_loop ex_env ?e [(4, 1)] ex_matrices ex_world
        = Inr (fst (projr ex_prefix_multiple), snd (projr ex_prefix_multiple))
      \<and> ?dm = Inr (RTuple (Finite 12) [1, 2, 0], snd (projr ?dm))
      \<and> run_multiple_processes ex_env ?e ([(4, 1)] @ (0, 1) # [(4, 0)]) ex_matrices 0 ex_world
        = Inr (fst (projr ex_whole_multiple), snd (projr ex_whole_multiple))"
    using pm wm dm by (simp add: ex_prefix_multiple_def ex_whole_multiple_def)
  note thm1 = matching_inverse_stored [OF h is_permutation_example,
      of ex_env ?e "[(4, 1)]" ex_matrices False ex_world
        "fst (projr ex_prefix_single)" "snd (projr ex_prefix_single)" "Finite 12" "snd (projr ?ds)"
        "fst (projr ex_whole_single)" "snd (projr ex_whole_single)"]
  note thm2 = matching_inverse_stored [OF h is_permutation_example,
      of ex_env ?e "[(4, 1)]" ex_matrices True ex_world
        "fst (projr ex_prefix_multiple)" "snd (projr ex_prefix_multiple)" "Finite 12" "snd (projr ?dm)"
        "fst (projr ex_whole_multiple)" "snd (projr ex_whole_multiple)" 0]
  have c1: "cell (matchings (fst (projr ex_whole_single))) 0 1 = Some [1, 2, 0]
      \<and> cell (matchings (fst (projr ex_whole_single))) 1 0 = Some [2, 0, 1]"
    using thm1 single by (simp add: argsort_example)
  have c2: "cell (matchings (fst (projr ex_whole_multiple))) 0 1 = Some [1, 2, 0]
      \<and> cell (matchings (fst (projr ex_whole_multiple))) 1 0 = Some [2, 0, 1]"
    using thm2 multiple by (simp add: argsort_example)
  have c3: "\<forall>k<3. np_getitem [2, 0, 1] ([1, 2, 0] ! k) = Inr (int k)"
    using thm1 by (simp add: argsort_example)
  have "np_getitem [2, 0, 1] 1 = Inr 0" "np_getitem [2, 0, 1] 2 = Inr 1"
    "np_getitem [2, 0, 1] 0 = Inr 2"
    using c3 [rule_format, of 0] c3 [rule_format, of 1] c3 [rule_format, of 2] by simp_all
  moreover have "fst (projr ?ds) = RTuple (Finite 12) [1, 2, 0]"
    by (simp add: ex_prefix_single_def ex_defs run_defs)
  moreover have "fst (projr ?dm) = RTuple (Finite 12) [1, 2, 0]"
    by (simp add: ex_prefix_multiple_def ex_defs run_defs)
  ultimately show ?thesis
    using h is_permutation_example ps ws pm wm c1 c2 by simp
qed

subsection \<open>Pairs for which the dispatcher reports a failure (C3)\<close>

lemma store_mirrored_defined:
  assumes "i \<in> dom m" and "j \<in> dom m"
  shows "\<exists>m'. store_mirrored m i j v = Inr m'"
proof -
  obtain ri where ri: "m i = Some ri" using assms(1) by blast
  define m1 where "m1 = m(i \<mapsto> ri(j \<mapsto> v))"
  have s1: "set_cell m i j v = Inr m1"
    by (simp add: set_cell_def ri m1_def)
  have "cell m1 i j = Some v"
    by (simp add: cell_set_cell [OF s1])
  then have g: "get_cell m1 i j = Inr v"
    by (simp only: get_cell_cell)
  have "j \<in> dom m1" using assms(2) by (auto simp: m1_def)
  then obtain rj where rj: "m1 j = Some rj" by blast
  have "set_cell m1 j i v = Inr (m1(j \<mapsto> rj(i \<mapsto> v)))"
    by (simp add: set_cell_def rj)
  then show ?thesis
    unfolding store_mirrored_def by (simp only: s1 g sum.case) blast
qed

lemma store_result_none:
  assumes "i \<in> dom (distances ms)" and "j \<in> dom (distances ms)"
    and "i \<in> dom (times_m ms)" and "j \<in> dom (times_m ms)"
  shows "\<exists>ms'. store_result i j start_time RNone ms w = Inr (ms', snd (time_now w))
           \<and> matchings ms' = matchings ms
           \<and> cell (distances ms') i j = Some PyNone \<and> cell (distances ms') j i = Some PyNone
           \<and> cell (times_m ms') i j = Some (fst (time_now w) - start_time)
           \<and> cell (times_m ms') j i = Some (fst (time_now w) - start_time)"
proof -
  obtain d1 where d1: "store_mirrored (distances ms) i j PyNone = Inr d1"
    using store_mirrored_defined [OF assms(1,2)] by blast
  obtain t1 where t1: "store_mirrored (times_m ms) i j (fst (time_now w) - start_time) = Inr t1"
    using store_mirrored_defined [OF assms(3,4)] by blast
  have "store_result i j start_time RNone ms w =
          Inr (ms\<lparr>distances := d1, times_m := t1, matchings := matchings ms\<rparr>, snd (time_now w))"
    by (cases "time_now w") (use t1 in \<open>simp add: store_result_def store_matching_def d1\<close>)
  moreover have "cell d1 i j = Some PyNone" "cell d1 j i = Some PyNone"
    by (simp_all add: store_mirrored_cells [OF d1])
  moreover have "cell t1 i j = Some (fst (time_now w) - start_time)"
    "cell t1 j i = Some (fst (time_now w) - start_time)"
    by (simp_all add: store_mirrored_cells [OF t1])
  ultimately show ?thesis by simp
qed

lemma get_distance_reports:
  assumes "reports g did (type_of w election_1) (type_of w election_2) msg"
  shows "get_distance g election_1 election_2 did w = Inr (RNone, logging_warning msg w)"
  using assms
  by (auto simp: reports_def get_distance_def get_approval_distance_def get_ordinal_distance_def
      domIff)

lemma type_of_copies:
  assumes "r1 < next_ref (heap w)" and "r2 < next_ref (heap w)"
    and "deepcopy r1 (heap w) = (c1, h1)" and "deepcopy r2 h1 = (c2, h2)"
  shows "type_of (w\<lparr>heap := h2\<rparr>) c1 = type_of w r1"
    and "type_of (w\<lparr>heap := h2\<rparr>) c2 = type_of w r2"
  using assms by (auto simp: deepcopy_def type_of_def)

lemma type_of_time_now: "type_of (snd (time_now w)) r = type_of w r"
  by (simp add: type_of_def time_now_def)

lemma dispatch_reports:
  assumes "instances experiment i = Some r1" and "instances experiment j = Some r2"
    and "reports g (distance_id experiment) (type_of w r1) (type_of w r2) msg"
  shows "get_distance_direct g experiment i j w = Inr (RNone, logging_warning msg w)"
    and "r1 < next_ref (heap w) \<Longrightarrow> r2 < next_ref (heap w) \<Longrightarrow>
         \<exists>h. get_distance_copied g experiment i j w = Inr (RNone, logging_warning msg (w\<lparr>heap := h\<rparr>))"
proof -
  show "get_distance_direct g experiment i j w = Inr (RNone, logging_warning msg w)"
    using assms by (simp add: get_distance_direct_def get_instance_def get_distance_reports)
next
  assume lt: "r1 < next_ref (heap w)" "r2 < next_ref (heap w)"
  obtain c1 h1 where d1: "deepcopy r1 (heap w) = (c1, h1)" by (cases "deepcopy r1 (heap w)")
  obtain c2 h2 where d2: "deepcopy r2 h1 = (c2, h2)" by (cases "deepcopy r2 h1")
  have "reports g (distance_id experiment) (type_of (w\<lparr>heap := h2\<rparr>) c1)
          (type_of (w\<lparr>heap := h2\<rparr>) c2) msg"
    using assms(3) by (simp only: type_of_copies [OF lt d1 d2])
  then have "get_distance g c1 c2 (distance_id experiment) (w\<lparr>heap := h2\<rparr>)
               = Inr (RNone, logging_warning msg (w\<lparr>heap := h2\<rparr>))"
    by (rule get_distance_reports)
  then have "get_distance_copied g experiment i j w
               = Inr (RNone, logging_warning msg (w\<lparr>heap := h2\<rparr>))"
    using assms(1,2) by (simp add: get_distance_copied_def get_instance_def d1 d2)
  then show "\<exists>h. get_distance_copied g experiment i j w
               = Inr (RNone, logging_warning msg (w\<lparr>heap := h\<rparr>))"
    by blast
qed

lemma logged_fields:
  "warnings (snd (time_now (logging_warning msg (snd (time_now w))))) = warnings w @ [msg]"
  "calls (snd (time_now (logging_warning msg (snd (time_now w))))) = calls w"
  "warnings (snd (time_now (logging_warning msg (snd (time_now w)\<lparr>heap := h\<rparr>)))) = warnings w @ [msg]"
  "calls (snd (time_now (logging_warning msg (snd (time_now w)\<lparr>heap := h\<rparr>)))) = calls w"
  "fst (time_now (logging_warning msg (snd (time_now w)))) = clock w (Suc (ticks w))"
  "fst (time_now (logging_warning msg (snd (time_now w)\<lparr>heap := h\<rparr>))) = clock w (Suc (ticks w))"
  by (simp_all add: time_now_def logging_warning_def)

lemma time_now_reading: "fst (time_now w) = clock w (ticks w)"
  by (simp add: time_now_def)

lemma single_iteration_unfold:
  "single_iteration g experiment safe_mode i j ms w =
     (case (if safe_mode then get_distance_copied g experiment i j (snd (time_now w))
            else get_distance_direct g experiment i j (snd (time_now w))) of
        Inl e \<Rightarrow> Inl e
      | Inr (distance, w2) \<Rightarrow> store_result i j (fst (time_now w)) distance ms w2)"
  by (simp add: single_iteration_def time_now_def split: sum.splits)

lemma single_iteration_reports:
  assumes inst: "instances experiment i = Some r1" "instances experiment j = Some r2"
    and alloc: "r1 < next_ref (heap w)" "r2 < next_ref (heap w)"
    and rep: "reports g (distance_id experiment) (type_of w r1) (type_of w r2) msg"
    and rows: "i \<in> dom (distances ms)" "j \<in> dom (distances ms)"
      "i \<in> dom (times_m ms)" "j \<in> dom (times_m ms)"
  shows "\<exists>ms1 w1.
           single_iteration g experiment safe_mode i j ms w = Inr (ms1, w1)
         \<and> matchings ms1 = matchings ms
         \<and> cell (distances ms1) i j = Some PyNone \<and> cell (distances ms1) j i = Some PyNone
         \<and> cell (times_m ms1) i j = Some (clock w (Suc (ticks w)) - clock w (ticks w))
          \<and> cell (times_m ms1) j i = Some (clock w (Suc (ticks w)) - clock w (ticks w))
         \<and> warnings w1 = warnings w @ [msg] \<and> calls w1 = calls w"
proof -
  let ?w = "snd (time_now w)"
  have rep': "reports g (distance_id experiment) (type_of ?w r1) (type_of ?w r2) msg"
    using rep by (simp only: type_of_time_now)
  have alloc': "r1 < next_ref (heap ?w)" "r2 < next_ref (heap ?w)"
    using alloc by (simp_all add: time_now_def)
  have "\<exists>w2. (if safe_mode then get_distance_copied g experiment i j ?w
               else get_distance_direct g experiment i j ?w) = Inr (RNone, w2)
             \<and> warnings (snd (time_now w2)) = warnings w @ [msg]
             \<and> calls (snd (time_now w2)) = calls w
             \<and> fst (time_now w2) = clock w (Suc (ticks w))"
  proof (cases safe_mode)
    case True
    obtain h where "get_distance_copied g experiment i j ?w
                      = Inr (RNone, logging_warning msg (?w\<lparr>heap := h\<rparr>))"
      using dispatch_reports(2) [OF inst rep' alloc'] by blast
    then show ?thesis using True by (simp add: logged_fields)
  next
    case False
    have "get_distance_direct g experiment i j ?w = Inr (RNone, logging_warning msg ?w)"
      by (rule dispatch_reports(1) [OF inst rep'])
    then show ?thesis using False by (simp add: logged_fields)
  qed
  then obtain w2 where
    d: "(if safe_mode then get_distance_copied g experiment i j ?w
         else get_distance_direct g experiment i j ?w) = Inr (RNone, w2)"
    and l: "warnings (snd (time_now w2)) = warnings w @ [msg]" "calls (snd (time_now w2)) = calls w"
    and t: "fst (time_now w2) = clock w (Suc (ticks w))"
    by blast
  obtain ms1 where
    sr: "store_result i j (fst (time_now w)) RNone ms w2 = Inr (ms1, snd (time_now w2))"
    and m: "matchings ms1 = matchings ms"
    and c: "cell (distances ms1) i j = Some PyNone" "cell (distances ms1) j i = Some PyNone"
      "cell (times_m ms1) i j = Some (clock w (Suc (ticks w)) - fst (time_now w))"
      "cell (times_m ms1) j i = Some (clock w (Suc (ticks w)) - fst (time_now w))"
    using store_result_none [OF rows, of "fst (time_now w)" w2, unfolded t] by blast
  have "single_iteration g experiment safe_mode i j ms w = Inr (ms1, snd (time_now w2))"
    by (simp only: single_iteration_unfold d sr sum.case prod.case)
  then show ?thesis using m c [unfolded time_now_reading] l by blast
qed

text \<open>
  Claim C3, as the code has it. For a pair for which the dispatcher reports an unknown
  distance or a family mismatch, the dispatcher logs the warning, invokes no metric and
  returns \<^verbatim>\<open>None\<close>; the scheduler (either of the two) leaves the matchings as they are,
  writes \<^verbatim>\<open>None\<close> into \<^verbatim>\<open>distances[i][j]\<close> and \<^verbatim>\<open>distances[j][i]\<close> and the elapsed time
  (the clock reading after the dispatch minus the reading before it) into
  \<^verbatim>\<open>times[i][j]\<close> and \<^verbatim>\<open>times[j][i]\<close>, and goes on with the remaining pairs. The stored
  instances are allocated objects and the rows \<open>i\<close> and \<open>j\<close> of the distance and time
  matrices exist.
\<close>

theorem reported_pair_recorded_as_none:
  assumes "instances experiment i = Some r1" and "instances experiment j = Some r2"
    and "r1 < next_ref (heap w)" and "r2 < next_ref (heap w)"
    and "reports g (distance_id experiment) (type_of w r1) (type_of w r2) msg"
    and "i \<in> dom (distances ms)" and "j \<in> dom (distances ms)"
    and "i \<in> dom (times_m ms)" and "j \<in> dom (times_m ms)"
  shows "(\<exists>ms1 w1.
            run_single_process g experiment ((i, j) # rest) ms safe_mode w
              = run_single_process g experiment rest ms1 safe_mode w1
          \<and> matchings ms1 = matchings ms
          \<and> cell (distances ms1) i j = Some PyNone \<and> cell (distances ms1) j i = Some PyNone
          \<and> cell (times_m ms1) i j = Some (clock w (Suc (ticks w)) - clock w (ticks w))
          \<and> cell (times_m ms1) j i = Some (clock w (Suc (ticks w)) - clock w (ticks w))
          \<and> warnings w1 = warnings w @ [msg] \<and> calls w1 = calls w)
       \<and> (\<exists>ms1 w1.
            run_multiple_processes g experiment ((i, j) # rest) ms process_id w
              = run_multiple_processes g experiment rest ms1 process_id w1
          \<and> matchings ms1 = matchings ms
          \<and> cell (distances ms1) i j = Some PyNone \<and> cell (distances ms1) j i = Some PyNone
          \<and> cell (times_m ms1) i j = Some (clock w (Suc (ticks w)) - clock w (ticks w))
          \<and> cell (times_m ms1) j i = Some (clock w (Suc (ticks w)) - clock w (ticks w))
          \<and> warnings w1 = warnings w @ [msg] \<and> calls w1 = calls w)"
proof
  obtain ms1 w1 where
    it: "single_iteration g experiment safe_mode i j ms w = Inr (ms1, w1)"
    and p: "matchings ms1 = matchings ms"
      "cell (distances ms1) i j = Some PyNone" "cell (distances ms1) j i = Some PyNone"
      "cell (times_m ms1) i j = Some (clock w (Suc (ticks w)) - clock w (ticks w))"
      "cell (times_m ms1) j i = Some (clock w (Suc (ticks w)) - clock w (ticks w))"
      "warnings w1 = warnings w @ [msg]" "calls w1 = calls w"
    using single_iteration_reports [OF assms, of safe_mode] by blast
  have "run_single_process g experiment ((i, j) # rest) ms safe_mode w
          = run_single_process g experiment rest ms1 safe_mode w1"
    by (simp add: it)
  then show "\<exists>ms1 w1.
            run_single_process g experiment ((i, j) # rest) ms safe_mode w
              = run_single_process g experiment rest ms1 safe_mode w1
          \<and> matchings ms1 = matchings ms
          \<and> cell (distances ms1) i j = Some PyNone \<and> cell (distances ms1) j i = Some PyNone
          \<and> cell (times_m ms1) i j = Some (clock w (Suc (ticks w)) - clock w (ticks w))
          \<and> cell (times_m ms1) j i = Some (clock w (Suc (ticks w)) - clock w (ticks w))
          \<and> warnings w1 = warnings w @ [msg] \<and> calls w1 = calls w"
    using p by blast
next
  obtain ms1 w1 where
    it: "single_iteration g experiment True i j ms w = Inr (ms1, w1)"
    and p: "matchings ms1 = matchings ms"
      "cell (distances ms1) i j = Some PyNone" "cell (distances ms1) j i = Some PyNone"
      "cell (times_m ms1) i j = Some (clock w (Suc (ticks w)) - clock w (ticks w))"
      "cell (times_m ms1) j i = Some (clock w (Suc (ticks w)) - clock w (ticks w))"
      "warnings w1 = warnings w @ [msg]" "calls w1 = calls w"
    using single_iteration_reports [OF assms, of True] by blast
  have "run_multiple_processes g experiment ((i, j) # rest) ms process_id w
          = run_multiple_processes g experiment rest ms1 process_id w1"
    by (simp add: run_multiple_processes_def multiple_iteration_single it)
  then show "\<exists>ms1 w1.
            run_multiple_processes g experiment ((i, j) # rest) ms process_id w
              = run_multiple_processes g experiment rest ms1 process_id w1
          \<and> matchings ms1 = matchings ms
          \<and> cell (distances ms1) i j = Some PyNone \<and> cell (distances ms1) j i = Some PyNone
          \<and> cell (times_m ms1) i j = Some (clock w (Suc (ticks w)) - clock w (ticks w))
          \<and> cell (times_m ms1) j i = Some (clock w (Suc (ticks w)) - clock w (ticks w))
          \<and> warnings w1 = warnings w @ [msg] \<and> calls w1 = calls w"
    using p by blast
qed

theorem reported_pair_recorded_as_none_witness:
  "instances (ex_experiment ''nonexistent'') 0 = Some 0
   \<and> instances (ex_experiment ''nonexistent'') 1 = Some 1
   \<and> (0::nat) < next_ref (heap ex_world) \<and> 1 < next_ref (heap ex_world)
   \<and> reports ex_env (distance_id (ex_experiment ''nonexistent'')) (type_of ex_world 0)
        (type_of ex_world 1) ''No such distance as: nonexistent!''
   \<and> 0 \<in> dom (distances ex_matrices) \<and> 1 \<in> dom (distances ex_matrices)
   \<and> 0 \<in> dom (times_m ex_matrices) \<and> 1 \<in> dom (times_m ex_matrices)
   \<and> (\<exists>ms1 w1.
          run_single_process ex_env (ex_experiment ''nonexistent'') [(0, 1), (4, 1)]
              ex_matrices False ex_world
            = run_single_process ex_env (ex_experiment ''nonexistent'') [(4, 1)] ms1 False w1
        \<and> matchings ms1 = matchings ex_matrices
        \<and> cell (distances ms1) 0 1 = Some PyNone \<and> cell (distances ms1) 1 0 = Some PyNone
        \<and> cell (times_m ms1) 0 1 = Some 3 \<and> cell (times_m ms1) 1 0 = Some 3
        \<and> warnings w1 = [''No such distance as: nonexistent!''] \<and> calls w1 = [])
   \<and> (\<exists>ms1 w1.
          run_multiple_processes ex_env (ex_experiment ''nonexistent'') [(0, 1), (4, 1)]
              ex_matrices 0 ex_world
            = run_multiple_processes ex_env (ex_experiment ''nonexistent'') [(4, 1)] ms1 0 w1
        \<and> matchings ms1 = matchings ex_matrices
        \<and> cell (distances ms1) 0 1 = Some PyNone \<and> cell (distances ms1) 1 0 = Some PyNone
        \<and> cell (times_m ms1) 0 1 = Some 3 \<and> cell (times_m ms1) 1 0 = Some 3
        \<and> warnings w1 = [''No such distance as: nonexistent!''] \<and> calls w1 = [])"
proof -
  have i: "instances (ex_experiment ''nonexistent'') 0 = Some 0"
    "instances (ex_experiment ''nonexistent'') 1 = Some 1"
    by (simp_all add: ex_experiment_def)
  have a: "(0::nat) < next_ref (heap ex_world)" "1 < next_ref (heap ex_world)"
    by (simp_all add: ex_world_def)
  have r: "reports ex_env (distance_id (ex_experiment ''nonexistent'')) (type_of ex_world 0)
        (type_of ex_world 1) ''No such distance as: nonexistent!''"
    by (simp add: reports_def ex_types ex_registries ex_experiment_def extract_distance_id_def
        domIff)
  have d: "0 \<in> dom (distances ex_matrices)" "1 \<in> dom (distances ex_matrices)"
    "0 \<in> dom (times_m ex_matrices)" "1 \<in> dom (times_m ex_matrices)"
    by (simp_all add: ex_matrices_def ex_rows_def domIff)
  have e: "warnings ex_world = []" "calls ex_world = []"
    "clock ex_world (Suc (ticks ex_world)) - clock ex_world (ticks ex_world) = 3"
    by (simp_all add: ex_world_def)
  show ?thesis
    using i a r d
      reported_pair_recorded_as_none [OF i a r d, of "[(4, 1)]" False 0]
    by (simp add: e)
qed

text \<open>
  Claim C3 as stated fails: the dispatcher reports an unknown distance for the pair
  \<open>(0, 1)\<close>, and a family mismatch for the pair \<open>(0, 2)\<close>; the cells of the pair were
  absent before the run, and after it the distance cells hold \<^verbatim>\<open>None\<close> and the time
  cells hold the elapsed time.
\<close>

theorem reported_pair_untouched_counterexample:
  "ex_unknown_run = Inr (projr ex_unknown_run)
   \<and> warnings (snd (projr ex_unknown_run)) = [''No such distance as: nonexistent!'']
   \<and> cell (distances ex_matrices) 0 1 = None
   \<and> cell (distances (fst (projr ex_unknown_run))) 0 1 = Some PyNone
   \<and> cell (distances (fst (projr ex_unknown_run))) 1 0 = Some PyNone
   \<and> cell (times_m ex_matrices) 0 1 = None
   \<and> cell (times_m (fst (projr ex_unknown_run))) 0 1 = Some 3
   \<and> ex_mismatch_run = Inr (projr ex_mismatch_run)
   \<and> warnings (snd (projr ex_mismatch_run)) = [''No such instance!'']
   \<and> cell (distances ex_matrices) 0 2 = None
   \<and> cell (distances (fst (projr ex_mismatch_run))) 0 2 = Some PyNone
   \<and> cell (distances (fst (projr ex_mismatch_run))) 2 0 = Some PyNone
   \<and> cell (times_m (fst (projr ex_mismatch_run))) 0 2 = Some 3"
  by (simp add: ex_unknown_run_def ex_mismatch_run_def ex_defs run_defs cell_def)

subsection \<open>Safe mode isolates the stored instances (C8)\<close>

text \<open>The heap \<open>h'\<close> extends \<open>h\<close> and agrees with it on all objects of \<open>h\<close> but \<open>a\<close> and \<open>b\<close>.\<close>

lemma call_metric_frame:
  assumes "mutates_only_arguments f"
    and "call_metric f name election_1 election_2 a w = Inr (r, w')"
  shows "next_ref (heap w) \<le> next_ref (heap w')"
    and "x < next_ref (heap w) \<Longrightarrow> x \<noteq> election_1 \<Longrightarrow> x \<noteq> election_2
         \<Longrightarrow> objs (heap w') x = objs (heap w) x"
proof -
  obtain h' where f: "f (heap w) election_1 election_2 a = Inr (r, h')" and h': "heap w' = h'"
    using assms(2) by (auto simp: call_metric_def split: sum.splits)
  show "next_ref (heap w) \<le> next_ref (heap w')"
    using assms(1) f h' unfolding mutates_only_arguments_def by blast
  show "x < next_ref (heap w) \<Longrightarrow> x \<noteq> election_1 \<Longrightarrow> x \<noteq> election_2
         \<Longrightarrow> objs (heap w') x = objs (heap w) x"
    using assms(1) f h' unfolding mutates_only_arguments_def by blast
qed

lemma registry_distance_shape:
  assumes "(case extract_distance_id (map_str_to_func g) did of
              Inl e \<Rightarrow> Inl e
            | Inr (inner_distance, main_distance) \<Rightarrow>
                (case registry main_distance of
                   Some f \<Rightarrow>
                     (case inner_distance of
                        Some inner \<Rightarrow>
                          call_metric f main_distance election_1 election_2 (Inner inner) w
                      | None \<Rightarrow>
                          call_metric f main_distance election_1 election_2 (Kwargs kwargs) w)
                 | None \<Rightarrow>
                     Inr (RNone,
                       logging_warning (''No such distance as: '' @ main_distance @ ''!'') w)))
           = Inr (r, w')"
  shows "(\<exists>f name a. f \<in> ran registry
            \<and> call_metric f name election_1 election_2 a w = Inr (r, w'))
         \<or> (\<exists>msg. w' = logging_warning msg w)"
proof (cases "extract_distance_id (map_str_to_func g) did")
  case (Inl e)
  then show ?thesis using assms by simp
next
  case (Inr im)
  obtain inner_distance main_distance where im: "im = (inner_distance, main_distance)"
    by (cases im)
  show ?thesis
  proof (cases "registry main_distance")
    case None
    then have "w' = logging_warning (''No such distance as: '' @ main_distance @ ''!'') w"
      using assms Inr im by simp
    then show ?thesis by blast
  next
    case (Some f)
    then have f: "f \<in> ran registry" by (rule ranI)
    show ?thesis
    proof (cases inner_distance)
      case None
      then have "call_metric f main_distance election_1 election_2 (Kwargs kwargs) w
                   = Inr (r, w')"
        using assms Inr im Some by simp
      then show ?thesis using f by blast
    next
      case (Some inner)
      then have "call_metric f main_distance election_1 election_2 (Inner inner) w
                   = Inr (r, w')"
        using assms Inr im \<open>registry main_distance = Some f\<close> by simp
      then show ?thesis using f by blast
    qed
  qed
qed

lemma get_distance_shape:
  assumes "get_distance g election_1 election_2 did w = Inr (r, w')"
  shows "(\<exists>f name a. f \<in> registered_metrics g
            \<and> call_metric f name election_1 election_2 a w = Inr (r, w'))
         \<or> (\<exists>msg. w' = logging_warning msg w)"
proof -
  consider (approval) "get_approval_distance g election_1 election_2 did [] w = Inr (r, w')"
    | (ordinal) "get_ordinal_distance g election_1 election_2 did [] w = Inr (r, w')"
    | (neither) "w' = logging_warning ''No such instance!'' w"
    using assms by (auto simp: get_distance_def split: if_splits)
  then show ?thesis
  proof cases
    case approval
    show ?thesis
      using registry_distance_shape [where registry = "registered_approval_distances g",
          OF approval [unfolded get_approval_distance_def]]
      by (auto simp: registered_metrics_def)
  next
    case ordinal
    show ?thesis
      using registry_distance_shape [where registry = "registered_ordinal_distances g",
          OF ordinal [unfolded get_ordinal_distance_def]]
      by (auto simp: registered_metrics_def)
  next
    case neither
    then show ?thesis by blast
  qed
qed

lemma get_distance_frame:
  assumes "\<forall>f \<in> registered_metrics g. mutates_only_arguments f"
    and "get_distance g election_1 election_2 did w = Inr (r, w')"
  shows "next_ref (heap w) \<le> next_ref (heap w')
       \<and> (\<forall>x < next_ref (heap w). x \<noteq> election_1 \<and> x \<noteq> election_2
             \<longrightarrow> objs (heap w') x = objs (heap w) x)"
  using get_distance_shape [OF assms(2)]
proof
  assume "\<exists>f name a. f \<in> registered_metrics g
            \<and> call_metric f name election_1 election_2 a w = Inr (r, w')"
  then obtain f name a where f: "f \<in> registered_metrics g"
    and c: "call_metric f name election_1 election_2 a w = Inr (r, w')" by blast
  have "mutates_only_arguments f" using assms(1) f by blast
  then show ?thesis using call_metric_frame [OF _ c] by blast
next
  assume "\<exists>msg. w' = logging_warning msg w"
  then show ?thesis by (auto simp: logging_warning_def)
qed

lemma get_distance_copied_frame:
  assumes "\<forall>f \<in> registered_metrics g. mutates_only_arguments f"
    and "get_distance_copied g experiment i j w = Inr (r, w')"
  shows "next_ref (heap w) \<le> next_ref (heap w')"
    and "x < next_ref (heap w) \<Longrightarrow> objs (heap w') x = objs (heap w) x"
proof -
  obtain r1 r2 where "instances experiment i = Some r1" "instances experiment j = Some r2"
    using assms(2)
    by (auto simp: get_distance_copied_def get_instance_def split: option.splits)
  then have gd: "get_distance g (next_ref (heap w)) (Suc (next_ref (heap w)))
        (distance_id experiment) (w\<lparr>heap := snd (deepcopy r2 (snd (deepcopy r1 (heap w))))\<rparr>)
      = Inr (r, w')"
    using assms(2) by (simp add: get_distance_copied_def get_instance_def deepcopy_def)
  let ?h2 = "snd (deepcopy r2 (snd (deepcopy r1 (heap w))))"
  have n2: "next_ref ?h2 = Suc (Suc (next_ref (heap w)))"
    by (simp add: deepcopy_def)
  have o2: "objs ?h2 x = objs (heap w) x" if "x < next_ref (heap w)" for x
    using that by (simp add: deepcopy_def)
  have fr: "next_ref ?h2 \<le> next_ref (heap w')
       \<and> (\<forall>x < next_ref ?h2. x \<noteq> next_ref (heap w) \<and> x \<noteq> Suc (next_ref (heap w))
             \<longrightarrow> objs (heap w') x = objs ?h2 x)"
    using get_distance_frame [OF assms(1) gd] by simp
  show "next_ref (heap w) \<le> next_ref (heap w')"
    using fr n2 by simp
  show "objs (heap w') x = objs (heap w) x" if "x < next_ref (heap w)"
    using fr n2 o2 [OF that] that by simp
qed

lemma store_result_heap:
  assumes "store_result i j start_time distance ms w = Inr (ms', w')"
  shows "heap w' = heap w"
  using store_result_steps [OF assms] by (auto simp: time_now_def)

lemma safe_iteration_frame:
  assumes "\<forall>f \<in> registered_metrics g. mutates_only_arguments f"
    and "single_iteration g experiment True i j ms w = Inr (ms', w')"
  shows "next_ref (heap w) \<le> next_ref (heap w')"
    and "x < next_ref (heap w) \<Longrightarrow> objs (heap w') x = objs (heap w) x"
proof -
  obtain distance w2 where
    gd: "get_distance_copied g experiment i j (snd (time_now w)) = Inr (distance, w2)"
    and sr: "store_result i j (fst (time_now w)) distance ms w2 = Inr (ms', w')"
    using single_iteration_stores [OF assms(2)] by auto
  have h: "heap (snd (time_now w)) = heap w" by (simp add: time_now_def)
  show "next_ref (heap w) \<le> next_ref (heap w')"
    using get_distance_copied_frame(1) [OF assms(1) gd] store_result_heap [OF sr] h by simp
  show "x < next_ref (heap w) \<Longrightarrow> objs (heap w') x = objs (heap w) x"
    using get_distance_copied_frame(2) [OF assms(1) gd, of x] store_result_heap [OF sr] h
    by simp
qed

lemma safe_run_frame:
  assumes "\<forall>f \<in> registered_metrics g. mutates_only_arguments f"
    and "run_single_process g experiment ids ms True w = Inr (ms', w')"
  shows "next_ref (heap w) \<le> next_ref (heap w')
       \<and> (\<forall>x < next_ref (heap w). objs (heap w') x = objs (heap w) x)"
  using assms(2)
proof (induction ids arbitrary: ms w)
  case Nil
  then show ?case by simp
next
  case (Cons p ids)
  obtain i j where p: "p = (i, j)" by (cases p)
  obtain ms1 w1 where
    it: "single_iteration g experiment True i j ms w = Inr (ms1, w1)"
    and rest: "run_single_process g experiment ids ms1 True w1 = Inr (ms', w')"
    using Cons.prems by (auto simp: p split: sum.splits)
  have a: "next_ref (heap w) \<le> next_ref (heap w1)"
    by (rule safe_iteration_frame(1) [OF assms(1) it])
  have b: "objs (heap w1) x = objs (heap w) x" if "x < next_ref (heap w)" for x
    using that by (rule safe_iteration_frame(2) [OF assms(1) it])
  have c: "next_ref (heap w1) \<le> next_ref (heap w')
       \<and> (\<forall>x < next_ref (heap w1). objs (heap w') x = objs (heap w1) x)"
    by (rule Cons.IH [OF rest])
  show ?case
  proof (intro conjI allI impI)
    show "next_ref (heap w) \<le> next_ref (heap w')" using a c by simp
  next
    fix x assume x: "x < next_ref (heap w)"
    then have "x < next_ref (heap w1)" using a by simp
    then have "objs (heap w') x = objs (heap w1) x" using c by blast
    then show "objs (heap w') x = objs (heap w) x" using b [OF x] by simp
  qed
qed

text \<open>
  Claim C8. Let every registered metric mutate nothing but its arguments, and let the
  stored instances be allocated objects. When the single-worker scheduler with safe
  mode enabled, or the multi-worker scheduler, returns, every stored instance holds
  the value it held before the run: the metrics worked on deep copies.
\<close>

theorem safe_mode_isolates_instances:
  assumes "metrics_mutate_only_arguments g"
    and "instances_allocated experiment w"
    and "run_single_process g experiment ids ms True w = Inr (ms', w')
         \<or> run_multiple_processes g experiment ids ms process_id w = Inr (ms', w')"
    and "instances experiment i = Some r"
  shows "objs (heap w') r = objs (heap w) r"
proof -
  have "\<exists>w''. run_single_process g experiment ids ms True w = Inr (ms', w'')
              \<and> heap w'' = heap w'"
    using assms(3)
    by (auto simp: run_multiple_processes_def multiple_loop_single
        export_distances_multiple_processes_def split: sum.splits if_splits)
  then obtain w'' where run: "run_single_process g experiment ids ms True w = Inr (ms', w'')"
    and h: "heap w'' = heap w'" by blast
  have "r < next_ref (heap w)"
    using assms(2,4) unfolding instances_allocated_def by blast
  then have "objs (heap w'') r = objs (heap w) r"
    using safe_run_frame [OF assms(1) [unfolded metrics_mutate_only_arguments_def] run]
    by blast
  then show ?thesis using h by simp
qed

lemma ex_metrics_mutate_only_arguments: "metrics_mutate_only_arguments ex_env"
proof -
  have "mutates_only_arguments ex_swap" "mutates_only_arguments ex_approvalwise"
    "mutates_only_arguments ex_counting" "mutates_only_arguments ex_blank"
    by (auto simp: mutates_only_arguments_def ex_swap_def ex_approvalwise_def ex_counting_def
        ex_blank_def)
  moreover have "registered_metrics ex_env \<subseteq> {ex_swap, ex_approvalwise, ex_counting, ex_blank}"
    by (auto simp: registered_metrics_def ran_def ex_env_def add_ordinal_distance_def
        add_approval_distance_def split: if_splits)
  ultimately show ?thesis unfolding metrics_mutate_only_arguments_def by blast
qed

theorem safe_mode_isolates_instances_witness:
  "metrics_mutate_only_arguments ex_env
   \<and> instances_allocated (ex_experiment ''counting'') ex_world
   \<and> ex_safe_run = Inr (projr ex_safe_run) \<and> ex_workers_run = Inr (projr ex_workers_run)
   \<and> calls (snd (projr ex_safe_run)) = [(''counting'', 5, 6), (''counting'', 7, 8)]
   \<and> content (objs (heap (snd (projr ex_safe_run))) 5) = 6
   \<and> instances (ex_experiment ''counting'') 0 = Some 0
   \<and> objs (heap (snd (projr ex_safe_run))) 0 = objs (heap ex_world) 0
   \<and> objs (heap (snd (projr ex_workers_run))) 0 = objs (heap ex_world) 0
   \<and> content (objs (heap ex_world) 0) = 5"
proof -
  let ?e = "ex_experiment ''counting''"
  have a: "instances_allocated ?e ex_world"
    by (simp add: instances_allocated_def ex_experiment_def ex_world_def)
  have s: "ex_safe_run = Inr (projr ex_safe_run)"
    by (simp add: ex_safe_run_def ex_defs run_defs)
  have m: "ex_workers_run = Inr (projr ex_workers_run)"
    by (simp add: ex_workers_run_def run_multiple_processes_def ex_defs run_defs)
  have s': "run_single_process ex_env ?e [(0, 1), (0, 4)] ex_matrices True ex_world
              = Inr (fst (projr ex_safe_run), snd (projr ex_safe_run))"
    using s by (simp add: ex_safe_run_def)
  have m': "run_multiple_processes ex_env ?e [(0, 1), (0, 4)] ex_matrices 0 ex_world
              = Inr (fst (projr ex_workers_run), snd (projr ex_workers_run))"
    using m by (simp add: ex_workers_run_def)
  have i: "instances ?e 0 = Some 0" by (simp add: ex_experiment_def)
  have c: "calls (snd (projr ex_safe_run)) = [(''counting'', 5, 6), (''counting'', 7, 8)]"
    "content (objs (heap (snd (projr ex_safe_run))) 5) = 6"
    "content (objs (heap ex_world) 0) = 5"
    by (simp_all add: ex_safe_run_def ex_defs run_defs)
  show ?thesis
    using ex_metrics_mutate_only_arguments a s m i c
      safe_mode_isolates_instances [OF ex_metrics_mutate_only_arguments a disjI1 [OF s'] i]
      safe_mode_isolates_instances [OF ex_metrics_mutate_only_arguments a disjI2 [OF m'] i]
    by simp
qed

subsection \<open>Single-worker and multi-worker runs (C6)\<close>























end
